theory Spec2Isabelle
  imports Main "HOL-Library.Word" "HOL-Library.Monad_Syntax"
begin

unbundle bit_operations_syntax

section \<open>The region allocator (arena.h)\<close>

text \<open>
  The allocator is modelled on an LP64 platform: \<open>size_t\<close> and \<open>uintptr_t\<close> are 64-bit
  words whose arithmetic wraps, \<open>ARENA_ALIGNMENT = 2 * sizeof(void * )\<close> is 16 and the
  header of a region (\<open>next\<close>, \<open>capacity\<close>, \<open>count\<close>) occupies 24 bytes in front of
  its \<open>data\<close>.

  The chain of regions that starts at \<open>a->begin\<close> is a list; the \<open>next\<close> pointer of a
  region is its successor in the list. The pointer \<open>a->end\<close> is the position of the
  current region in that list, \<open>None\<close> for the null pointer. A region keeps the address
  that \<open>malloc\<close> returned for it, from which the allocator computes the alignment
  padding.
\<close>

type_synonym size_t = "64 word"
type_synonym uintptr_t = "64 word"

definition ARENA_DEFAULT_BLOCK_SIZE :: size_t where
  "ARENA_DEFAULT_BLOCK_SIZE = 8 * 1024"

definition ARENA_ALIGNMENT :: size_t where
  "ARENA_ALIGNMENT = 16"

definition sizeof_ArenaRegion :: size_t where
  "sizeof_ArenaRegion = 24"

record ArenaRegion =
  capacity :: size_t
  count :: size_t
  base :: uintptr_t

record Arena =
  chain :: "ArenaRegion list"
  end_idx :: "nat option"

record ArenaTemp =
  old_end :: "nat option"
  old_count :: size_t

text \<open>
  The C library's \<open>malloc\<close> and \<open>free\<close> are outside the repository. The system heap
  is an oracle that answers the n-th call of \<open>malloc\<close> with an address or with the null
  pointer; it counts the calls and records the addresses passed to \<open>free\<close>.
\<close>

record sys =
  answers :: "nat \<Rightarrow> uintptr_t option"
  ncalls :: nat
  freed :: "uintptr_t list"

definition malloc :: "sys \<Rightarrow> size_t \<Rightarrow> uintptr_t option \<times> sys" where
  "malloc s n = (answers s (ncalls s), s\<lparr>ncalls := Suc (ncalls s)\<rparr>)"

definition free :: "sys \<Rightarrow> uintptr_t \<Rightarrow> sys" where
  "free s p = s\<lparr>freed := freed s @ [p]\<rparr>"

definition arena__align_forward :: "uintptr_t \<Rightarrow> size_t \<Rightarrow> uintptr_t" where
  "arena__align_forward ptr align =
     (let p = ptr;
          a = align;
          modulo = p AND (a - 1)
      in if modulo \<noteq> 0 then p + (a - modulo) else p)"

definition arena__new_region :: "sys \<Rightarrow> size_t \<Rightarrow> ArenaRegion option \<times> sys" where
  "arena__new_region s cap =
     (let sz = sizeof_ArenaRegion + cap in
      case malloc s sz of
        (None, s') \<Rightarrow> (None, s')
      | (Some r, s') \<Rightarrow> (Some \<lparr>capacity = cap, count = 0, base = r\<rparr>, s'))"

definition arena_init :: "Arena" where
  "arena_init = \<lparr>chain = [], end_idx = None\<rparr>"

text \<open>The address of \<open>r->data\<close>.\<close>

definition data_of :: "ArenaRegion \<Rightarrow> uintptr_t" where
  "data_of r = base r + sizeof_ArenaRegion"

text \<open>
  The loop of step 2 of \<open>arena_alloc\<close>, over the regions linked after the current one:
  the first region that is large enough is adopted with its count reset, a region
  that is too small is unlinked and freed. The result is the system heap, the adopted
  region if there is one, and the regions that stay linked behind it.
\<close>

fun arena_walk :: "sys \<Rightarrow> size_t \<Rightarrow> ArenaRegion list \<Rightarrow> sys \<times> ArenaRegion option \<times> ArenaRegion list" where
  "arena_walk s sz [] = (s, None, [])"
| "arena_walk s sz (nxt # rest) =
     (let needed_cap = sz + ARENA_ALIGNMENT in
      if capacity nxt \<ge> needed_cap then (s, Some (nxt\<lparr>count := 0\<rparr>), rest)
      else arena_walk (free s (base nxt)) sz rest)"

text \<open>
  \<open>ALLOC_PROCEED\<close>: the current region is at position \<open>e\<close>; the allocation is placed at
  the aligned address behind \<open>padding\<close> bytes.
\<close>

definition alloc_proceed :: "sys \<Rightarrow> ArenaRegion list \<Rightarrow> nat \<Rightarrow> size_t \<Rightarrow> size_t \<Rightarrow> uintptr_t
    \<Rightarrow> uintptr_t option \<times> sys \<times> Arena" where
  "alloc_proceed s rs e padding sz next_ptr =
     (let cur = rs ! e in
      (Some next_ptr, s,
       \<lparr>chain = rs[e := cur\<lparr>count := count cur + (padding + sz)\<rparr>], end_idx = Some e\<rparr>))"

text \<open>The capacity of the region that step 3 allocates.\<close>

definition grow_capacity :: "ArenaRegion \<Rightarrow> size_t \<Rightarrow> size_t" where
  "grow_capacity cur sz =
     (let new_cap = capacity cur * 2;
          new_cap = (if sz + ARENA_ALIGNMENT > new_cap then sz + ARENA_ALIGNMENT else new_cap);
          new_cap = (if new_cap < ARENA_DEFAULT_BLOCK_SIZE then ARENA_DEFAULT_BLOCK_SIZE else new_cap)
      in new_cap)"

text \<open>
  Steps 1 to 3 of \<open>arena_alloc\<close>, for an arena whose current region is at position \<open>e\<close>
  of the chain \<open>rs\<close>.
\<close>

definition arena_alloc_in :: "sys \<Rightarrow> ArenaRegion list \<Rightarrow> nat \<Rightarrow> size_t
    \<Rightarrow> uintptr_t option \<times> sys \<times> Arena" where
  "arena_alloc_in s rs e sz =
     (let cur = rs ! e;
          curr_ptr = data_of cur + count cur;
          next_ptr = arena__align_forward curr_ptr ARENA_ALIGNMENT;
          padding = next_ptr - curr_ptr
      in
      if count cur + padding + sz > capacity cur then
        (case arena_walk s sz (drop (Suc e) rs) of
           (s1, Some nxt, rest) \<Rightarrow>
             (let rs1 = take (Suc e) rs @ nxt # rest;
                  curr_ptr = data_of nxt;
                  next_ptr = arena__align_forward curr_ptr ARENA_ALIGNMENT;
                  padding = next_ptr - curr_ptr
              in alloc_proceed s1 rs1 (Suc e) padding sz next_ptr)
         | (s1, None, rest) \<Rightarrow>
             (let new_cap = grow_capacity cur sz in
              case arena__new_region s1 new_cap of
                (None, s2) \<Rightarrow> (None, s2, \<lparr>chain = take (Suc e) rs, end_idx = Some e\<rparr>)
              | (Some nxt, s2) \<Rightarrow>
                  (let rs1 = take (Suc e) rs @ [nxt];
                       curr_ptr = data_of nxt;
                       next_ptr = arena__align_forward curr_ptr ARENA_ALIGNMENT;
                       padding = next_ptr - curr_ptr
                   in alloc_proceed s2 rs1 (Suc e) padding sz next_ptr)))
      else alloc_proceed s rs e padding sz next_ptr)"

definition arena_alloc :: "sys \<Rightarrow> Arena \<Rightarrow> size_t \<Rightarrow> uintptr_t option \<times> sys \<times> Arena" where
  "arena_alloc s a sz =
     (if sz = 0 then (None, s, a)
      else
        case end_idx a of
          None \<Rightarrow>
            (case chain a of
               b # rest \<Rightarrow> arena_alloc_in s (b\<lparr>count := 0\<rparr> # rest) 0 sz
             | [] \<Rightarrow>
                 (let cap = ARENA_DEFAULT_BLOCK_SIZE;
                      cap = (if sz > cap then sz else cap)
                  in case arena__new_region s cap of
                       (None, s') \<Rightarrow> (None, s', a)
                     | (Some b, s') \<Rightarrow> arena_alloc_in s' [b] 0 sz))
        | Some e \<Rightarrow> arena_alloc_in s (chain a) e sz)"

definition arena_reset :: "Arena \<Rightarrow> Arena" where
  "arena_reset a =
     (case chain a of
        b # rest \<Rightarrow> \<lparr>chain = b\<lparr>count := 0\<rparr> # rest, end_idx = Some 0\<rparr>
      | [] \<Rightarrow> a\<lparr>end_idx := None\<rparr>)"

definition arena_free :: "sys \<Rightarrow> Arena \<Rightarrow> sys \<times> Arena" where
  "arena_free s a = (fold (\<lambda>r s'. free s' (base r)) (chain a) s, \<lparr>chain = [], end_idx = None\<rparr>)"

definition arena_temp_begin :: "Arena \<Rightarrow> ArenaTemp" where
  "arena_temp_begin a =
     \<lparr>old_end = end_idx a,
      old_count = (case end_idx a of Some e \<Rightarrow> count (chain a ! e) | None \<Rightarrow> 0)\<rparr>"

definition arena_temp_end :: "ArenaTemp \<Rightarrow> Arena \<Rightarrow> Arena" where
  "arena_temp_end temp a =
     (case old_end temp of
        None \<Rightarrow> a\<lparr>end_idx := None\<rparr>
      | Some e \<Rightarrow> \<lparr>chain = (chain a)[e := (chain a ! e)\<lparr>count := old_count temp\<rparr>], end_idx = Some e\<rparr>)"

text \<open>A sequence of \<open>arena_alloc\<close> calls with the given sizes, the returned pointers dropped.\<close>

fun arena_allocs :: "sys \<Rightarrow> Arena \<Rightarrow> size_t list \<Rightarrow> sys \<times> Arena" where
  "arena_allocs s a [] = (s, a)"
| "arena_allocs s a (n # ns) = (case arena_alloc s a n of (_, s', a') \<Rightarrow> arena_allocs s' a' ns)"

text \<open>The current-region pointer of a well-formed arena points into the chain.\<close>

definition arena_wf :: "Arena \<Rightarrow> bool" where
  "arena_wf a = (case end_idx a of None \<Rightarrow> True | Some e \<Rightarrow> e < length (chain a))"

text \<open>What an allocation leaves alone: the regions in front of position e, and the
  capacity and address of the region at e.\<close>

definition keeps :: "nat \<Rightarrow> ArenaRegion list \<Rightarrow> Arena \<Rightarrow> bool" where
  "keeps e rs a \<longleftrightarrow>
     (\<exists>e'. end_idx a = Some e' \<and> e \<le> e' \<and> e' < length (chain a)
        \<and> take e (chain a) = take e rs
        \<and> capacity (chain a ! e) = capacity (rs ! e) \<and> base (chain a ! e) = base (rs ! e))"
section \<open>The value model (json.h)\<close>

text \<open>
  A \<open>JsonValue\<close> is a type tag with a union; the containers hold the head of a singly
  linked list of \<open>JsonNode\<close>s. A node pointer is null, points to a node, or is
  indeterminate: \<open>make_value\<close> takes the value from \<open>arena_alloc\<close>, which does not clear
  memory, and stores the tag only, so the head of a fresh container holds whatever the
  memory held before. The key of a node is a C string or the null pointer. The nodes of
  an array made by the parser never have their key stored or read; they are modelled
  with the null key. A value attached to a container is a subtree: a value attached to
  itself or to two containers is outside this model.

  A C string is the list of its bytes in front of the terminating NUL.
\<close>

datatype JsonType = JSON_NULL | JSON_BOOL | JSON_NUMBER | JSON_STRING | JSON_ARRAY | JSON_OBJECT

datatype 'd JsonValue =
    JNull
  | JBool bool
  | JNumber 'd
  | JString string
  | JArray "'d JsonNodePtr"
  | JObject "'d JsonNodePtr"
and 'd JsonNodePtr =
    NULL
  | Uninit
  | Node "string option" "'d JsonValue" "'d JsonNodePtr"

fun type_of :: "'d JsonValue \<Rightarrow> JsonType" where
  "type_of JNull = JSON_NULL"
| "type_of (JBool b) = JSON_BOOL"
| "type_of (JNumber n) = JSON_NUMBER"
| "type_of (JString s) = JSON_STRING"
| "type_of (JArray h) = JSON_ARRAY"
| "type_of (JObject h) = JSON_OBJECT"

record JsonError =
  e_msg :: string
  e_line :: int
  e_col :: int
  e_offset :: nat

definition NUL :: char where
  "NUL = CHR 0x00"

definition cstr :: "string \<Rightarrow> string" where
  "cstr bytes = takeWhile (\<lambda>c. c \<noteq> NUL) bytes"

text \<open>
  The double-precision operations that the code takes from the C library and the
  floating-point unit are parameters of the model: \<open>strtod\<close> maps the C string at a
  pointer to the value and the number of bytes it read, \<open>fmt_17g\<close> is
  \<open>snprintf\<close> with the format \<open>%.17g\<close>; \<open>d_of_int\<close>, \<open>d_mul\<close> and \<open>d_add\<close> are the
  conversion of an \<open>int\<close>, the product and the sum of doubles.
\<close>

record 'd libc =
  strtod :: "string \<Rightarrow> 'd \<times> nat"
  fmt_17g :: "'d \<Rightarrow> string"
  isfinite :: "'d \<Rightarrow> bool"
  d_of_int :: "int \<Rightarrow> 'd"
  d_mul :: "'d \<Rightarrow> 'd \<Rightarrow> 'd"
  d_add :: "'d \<Rightarrow> 'd \<Rightarrow> 'd"

text \<open>
  The JSON code sees of an allocation only whether it succeeded. The sizes of the two
  structs are those of LP64.
\<close>

type_synonym mem = "sys \<times> Arena"

definition sizeof_JsonValue :: size_t where
  "sizeof_JsonValue = 16"

definition sizeof_JsonNode :: size_t where
  "sizeof_JsonNode = 24"

definition alloc :: "mem \<Rightarrow> size_t \<Rightarrow> bool \<times> mem" where
  "alloc m sz = (case arena_alloc (fst m) (snd m) sz of (p, s', a') \<Rightarrow> (p \<noteq> None, (s', a')))"

text \<open>
  \<open>make_value\<close>: the result is whether the \<open>JsonValue\<close> was allocated. The value itself
  is built where the caller stores its payload; for an array or an object nothing does,
  and the head stays \<open>Uninit\<close>.
\<close>

definition make_value :: "mem \<Rightarrow> bool \<times> mem" where
  "make_value m = alloc m sizeof_JsonValue"

section \<open>The parser (json.c)\<close>

definition MAX_JSON_DEPTH :: nat where
  "MAX_JSON_DEPTH = 1000"

text \<open>
  The input is the memory at \<open>input\<close>; \<open>s->start\<close> is position 0 and \<open>s->end\<close> is the
  declared length. The memory behind the last byte of the list reads as NUL: the
  buffers that the callers of the repository pass are NUL-terminated.
\<close>

record ParseState =
  curr :: nat
  p_end :: nat
  line :: int
  col :: int
  err :: "JsonError option"

definition byte_at :: "string \<Rightarrow> nat \<Rightarrow> char" where
  "byte_at buf i = (if i < length buf then buf ! i else NUL)"

text \<open>The C string that starts at position \<open>i\<close>.\<close>

definition cstring_at :: "string \<Rightarrow> nat \<Rightarrow> string" where
  "cstring_at buf i = cstr (drop i buf)"

text \<open>\<open>strncmp(a, b, n) == 0\<close> for two C strings.\<close>

definition strncmp_eq :: "string \<Rightarrow> string \<Rightarrow> nat \<Rightarrow> bool" where
  "strncmp_eq a b n = (take n a = take n b)"

definition isdigit :: "char \<Rightarrow> bool" where
  "isdigit c = (48 \<le> (of_char c :: nat) \<and> (of_char c :: nat) \<le> 57)"

text \<open>\<open>vsnprintf\<close> into \<open>msg[128]\<close> keeps at most 127 bytes.\<close>

definition set_error :: "ParseState \<Rightarrow> string \<Rightarrow> ParseState" where
  "set_error s m =
     (case err s of
        None \<Rightarrow> s
      | Some e \<Rightarrow> s\<lparr>err := Some \<lparr>e_msg = take 127 m, e_line = line s, e_col = col s, e_offset = curr s\<rparr>\<rparr>)"

definition advance_fast :: "ParseState \<Rightarrow> nat \<Rightarrow> ParseState" where
  "advance_fast s n = s\<lparr>curr := curr s + n, col := col s + int n\<rparr>"

fun advance :: "string \<Rightarrow> ParseState \<Rightarrow> nat \<Rightarrow> ParseState" where
  "advance buf s 0 = s"
| "advance buf s (Suc n) =
     (if curr s \<ge> p_end s then s
      else advance buf
             ((if byte_at buf (curr s) = CHR 0x0A then s\<lparr>line := line s + 1, col := 1\<rparr>
               else s\<lparr>col := col s + 1\<rparr>)\<lparr>curr := curr s + 1\<rparr>) n)"

function skip_whitespace :: "string \<Rightarrow> ParseState \<Rightarrow> ParseState" where
  "skip_whitespace buf s =
     (if curr s < p_end s then
        (let c = byte_at buf (curr s) in
         if c = CHR '' '' \<or> c = CHR 0x09 \<or> c = CHR 0x0D then
           skip_whitespace buf (s\<lparr>curr := curr s + 1, col := col s + 1\<rparr>)
         else if c = CHR 0x0A then
           skip_whitespace buf (s\<lparr>curr := curr s + 1, line := line s + 1, col := 1\<rparr>)
         else s)
      else s)"
  by pat_completeness auto
termination
  by (relation "measure (\<lambda>(buf, s). p_end s - curr s)") auto

subsection \<open>Strings\<close>

text \<open>
  The scan for the closing quote: the position of the quote (or the end of the input)
  and whether a backslash was seen, or the message of the error.
\<close>

function scan_string :: "string \<Rightarrow> nat \<Rightarrow> nat \<Rightarrow> bool \<Rightarrow> string + nat \<times> bool" where
  "scan_string buf e scan has_escapes =
     (if scan < e then
        (let c = byte_at buf scan in
         if c = CHR 0x22 then Inr (scan, has_escapes)
         else if c = CHR 0x5C then
           (if scan + 1 \<ge> e then Inl ''Unterminated escape''
            else scan_string buf e (scan + 1 + 1) True)
         else if (of_char c :: nat) < 0x20 then Inl ''Control character in string''
         else scan_string buf e (scan + 1) has_escapes)
      else Inr (scan, has_escapes))"
  by pat_completeness auto
termination
  by (relation "measure (\<lambda>(buf, e, scan, h). e - scan)") auto

definition hex_val :: "char \<Rightarrow> nat option" where
  "hex_val c =
     (let n = (of_char c :: nat) in
      if 48 \<le> n \<and> n \<le> 57 then Some (n - 48)
      else if 97 \<le> n \<and> n \<le> 102 then Some (n - 97 + 10)
      else if 65 \<le> n \<and> n \<le> 70 then Some (n - 65 + 10)
      else None)"

text \<open>The four hex digits behind \<open>\u\<close>, the first of them at position \<open>p + 1\<close>: the code point.\<close>

fun unicode_escape :: "string \<Rightarrow> nat \<Rightarrow> nat \<Rightarrow> nat \<Rightarrow> nat \<Rightarrow> string + nat" where
  "unicode_escape buf p scan 0 codepoint = Inr codepoint"
| "unicode_escape buf p scan (Suc i) codepoint =
     (let p = p + 1 in
      if p \<ge> scan then Inl ''Invalid unicode escape''
      else case hex_val (byte_at buf p) of
             None \<Rightarrow> Inl ''Invalid unicode escape character''
           | Some v \<Rightarrow> unicode_escape buf p scan i (push_bit 4 codepoint OR v))"

definition utf8_encode :: "nat \<Rightarrow> string" where
  "utf8_encode codepoint =
     (if codepoint \<le> 0x7F then [char_of codepoint]
      else if codepoint \<le> 0x7FF then
        [char_of (0xC0 OR drop_bit 6 codepoint), char_of (0x80 OR (codepoint AND 0x3F))]
      else if codepoint \<le> 0xFFFF then
        [char_of (0xE0 OR drop_bit 12 codepoint),
         char_of (0x80 OR (drop_bit 6 codepoint AND 0x3F)),
         char_of (0x80 OR (codepoint AND 0x3F))]
      else [])"

text \<open>The bytes \<open>bs\<close> written to \<open>out\<close>, followed by what the rest of the loop writes.\<close>

definition emit :: "string \<Rightarrow> string + string \<Rightarrow> string + string" where
  "emit bs r = (case r of Inl m \<Rightarrow> Inl m | Inr out \<Rightarrow> Inr (bs @ out))"

text \<open>
  The second pass over a string with escapes, from position \<open>p\<close> to the closing quote at
  \<open>scan\<close>: the decoded bytes, or the message of the error. After the four digits of a
  \<open>\u\<close> escape \<open>p\<close> stands on the last of them.
\<close>

function decode_string :: "string \<Rightarrow> nat \<Rightarrow> nat \<Rightarrow> string + string" where
  "decode_string buf p scan =
     (if p < scan then
        (if byte_at buf p = CHR 0x5C then
           (let p = p + 1;
                c = byte_at buf p
            in
            if c = CHR 0x22 then emit [CHR 0x22] (decode_string buf (p + 1) scan)
            else if c = CHR 0x5C then emit [CHR 0x5C] (decode_string buf (p + 1) scan)
            else if c = CHR ''/'' then emit [CHR ''/''] (decode_string buf (p + 1) scan)
            else if c = CHR ''b'' then emit [CHR 0x08] (decode_string buf (p + 1) scan)
            else if c = CHR ''f'' then emit [CHR 0x0C] (decode_string buf (p + 1) scan)
            else if c = CHR ''n'' then emit [CHR 0x0A] (decode_string buf (p + 1) scan)
            else if c = CHR ''r'' then emit [CHR 0x0D] (decode_string buf (p + 1) scan)
            else if c = CHR ''t'' then emit [CHR 0x09] (decode_string buf (p + 1) scan)
            else if c = CHR ''u'' then
              (case unicode_escape buf p scan 4 0 of
                 Inl m \<Rightarrow> Inl m
               | Inr codepoint \<Rightarrow> emit (utf8_encode codepoint) (decode_string buf (p + 4 + 1) scan))
            else Inl ''Invalid escape sequence'')
         else emit [byte_at buf p] (decode_string buf (p + 1) scan))
      else Inr [])"
  by pat_completeness auto
termination
  by (relation "measure (\<lambda>(buf, p, scan). scan - p)") auto

declare skip_whitespace.simps [simp del]
declare scan_string.simps [simp del]
declare decode_string.simps [simp del]

text \<open>
  \<open>parse_string\<close>: the state stands on the opening quote. The result is the C string in
  the arena (a decoded \<open>\u0000\<close> ends it), or \<open>None\<close> for \<open>false\<close>.
\<close>

definition parse_string :: "string \<Rightarrow> mem \<Rightarrow> ParseState \<Rightarrow> string option \<times> ParseState \<times> mem" where
  "parse_string buf m s0 =
     (let s = advance buf s0 1;
          start_content = curr s
      in
      case scan_string buf (p_end s) start_content False of
        Inl msg \<Rightarrow> (None, set_error s msg, m)
      | Inr (scan, has_escapes) \<Rightarrow>
          if scan \<ge> p_end s then (None, set_error s ''Unterminated string'', m)
          else
            (let raw_len = scan - start_content in
             if \<not> has_escapes then
               (case alloc m (of_nat (raw_len + 1)) of
                  (False, m') \<Rightarrow> (None, s, m')
                | (True, m') \<Rightarrow>
                    (Some (cstr (take raw_len (drop start_content buf))),
                     advance_fast s (raw_len + 1), m'))
             else
               (case alloc m (of_nat (raw_len + 1)) of
                  (False, m') \<Rightarrow> (None, s, m')
                | (True, m') \<Rightarrow>
                    (case decode_string buf start_content scan of
                       Inl msg \<Rightarrow> (None, set_error s msg, m')
                     | Inr out \<Rightarrow> (Some (cstr out), advance buf s (scan - start_content + 1), m')))))"

subsection \<open>Numbers\<close>

function skip_digits :: "string \<Rightarrow> nat \<Rightarrow> nat \<Rightarrow> nat" where
  "skip_digits buf e p = (if p < e \<and> isdigit (byte_at buf p) then skip_digits buf e (p + 1) else p)"
  by pat_completeness auto
termination
  by (relation "measure (\<lambda>(buf, e, p). e - p)") auto

declare skip_digits.simps [simp del]

text \<open>
  The three blocks of \<open>is_valid_json_number\<close>: the integer part, the fraction and the
  exponent. Each gives the position behind what it read, or \<open>None\<close> where the source
  returns \<open>false\<close>.
\<close>

definition number_int_part :: "string \<Rightarrow> nat \<Rightarrow> nat \<Rightarrow> nat option" where
  "number_int_part buf e p =
     (if byte_at buf p = CHR ''0'' then
        (let p = p + 1 in
         if p < e \<and> (byte_at buf p = CHR ''x'' \<or> byte_at buf p = CHR ''X'') then None
         else if p < e \<and> isdigit (byte_at buf p) then None
         else Some p)
      else if isdigit (byte_at buf p) then Some (skip_digits buf e p)
      else None)"

definition number_frac_part :: "string \<Rightarrow> nat \<Rightarrow> nat \<Rightarrow> nat option" where
  "number_frac_part buf e p =
     (if p < e \<and> byte_at buf p = CHR ''.'' then
        (let p = p + 1 in
         if p \<ge> e \<or> \<not> isdigit (byte_at buf p) then None
         else Some (skip_digits buf e p))
      else Some p)"

definition number_exp_part :: "string \<Rightarrow> nat \<Rightarrow> nat \<Rightarrow> nat option" where
  "number_exp_part buf e p =
     (if p < e \<and> (byte_at buf p = CHR ''e'' \<or> byte_at buf p = CHR ''E'') then
        (let p = p + 1;
             p = (if p < e \<and> (byte_at buf p = CHR ''+'' \<or> byte_at buf p = CHR ''-'') then p + 1 else p)
         in
         if p \<ge> e \<or> \<not> isdigit (byte_at buf p) then None
         else Some (skip_digits buf e p))
      else Some p)"

definition is_valid_json_number :: "string \<Rightarrow> nat \<Rightarrow> nat \<Rightarrow> bool" where
  "is_valid_json_number buf cursor e =
     (let p = cursor;
          p = (if p < e \<and> byte_at buf p = CHR ''-'' then p + 1 else p)
      in
      if p \<ge> e then False
      else case number_int_part buf e p of
             None \<Rightarrow> False
           | Some p \<Rightarrow>
               (case number_frac_part buf e p of
                  None \<Rightarrow> False
                | Some p \<Rightarrow>
                    (case number_exp_part buf e p of
                       None \<Rightarrow> False
                     | Some p \<Rightarrow> True)))"

text \<open>The digit loop of the fast path: the accumulated value and the position behind the digits.\<close>

function fast_digits :: "'d libc \<Rightarrow> string \<Rightarrow> nat \<Rightarrow> nat \<Rightarrow> 'd \<Rightarrow> 'd \<times> nat" where
  "fast_digits L buf e p fast_val =
     (if p < e \<and> isdigit (byte_at buf p) then
        fast_digits L buf e (p + 1)
          (d_add L (d_mul L fast_val (d_of_int L 10)) (d_of_int L (int (of_char (byte_at buf p)) - 48)))
      else (fast_val, p))"
  by pat_completeness auto
termination
  by (relation "measure (\<lambda>(L, buf, e, p, v). e - p)") auto

declare fast_digits.simps [simp del]

text \<open>
  The part of \<open>parse_number\<close> behind the label \<open>USE_STRTOD\<close>. \<open>strtod\<close> is handed the
  pointer \<open>s->curr\<close> without the end of the input: it reads the C string that starts
  there.
\<close>

definition use_strtod :: "'d libc \<Rightarrow> string \<Rightarrow> ParseState \<Rightarrow> 'd option \<times> ParseState" where
  "use_strtod L buf s =
     (if \<not> is_valid_json_number buf (curr s) (p_end s) then (None, set_error s ''Invalid number format'')
      else case strtod L (cstring_at buf (curr s)) of
             (out_num, len) \<Rightarrow> (Some out_num, advance buf s len))"

definition parse_number :: "'d libc \<Rightarrow> string \<Rightarrow> ParseState \<Rightarrow> 'd option \<times> ParseState" where
  "parse_number L buf s =
     (let p = curr s;
          neg = (p < p_end s \<and> byte_at buf p = CHR ''-'');
          sign = (if neg then - 1 else 1);
          p = (if neg then p + 1 else p)
      in
      if p < p_end s \<and> byte_at buf p = CHR ''0'' then use_strtod L buf s
      else
        (let start_digits = p in
         case fast_digits L buf (p_end s) p (d_of_int L 0) of
           (fast_val, p) \<Rightarrow>
             if p = p_end s \<or> (byte_at buf p \<noteq> CHR ''.'' \<and> byte_at buf p \<noteq> CHR ''e'' \<and> byte_at buf p \<noteq> CHR ''E'') then
               (if p = start_digits then use_strtod L buf s
                else (Some (d_mul L fast_val (d_of_int L sign)), advance_fast s (p - curr s)))
             else use_strtod L buf s))"

subsection \<open>Elements, arrays and objects\<close>

definition quoted :: "char \<Rightarrow> string" where
  "quoted c = [CHR 0x27, c, CHR 0x27]"

text \<open>
  The branches of \<open>parse_element\<close> that do not recurse: a string, and behind the two
  containers a number or one of the three literals. \<open>strncmp\<close> is handed the pointer
  \<open>s->curr\<close> without the end of the input: it compares the C string that starts there.
\<close>

definition parse_string_value :: "string \<Rightarrow> mem \<Rightarrow> ParseState \<Rightarrow> 'd JsonValue option \<times> ParseState \<times> mem" where
  "parse_string_value buf m s =
     (case make_value m of
        (False, m1) \<Rightarrow> (None, s, m1)
      | (True, m1) \<Rightarrow>
          (case parse_string buf m1 s of
             (None, s1, m2) \<Rightarrow> (None, s1, m2)
           | (Some str, s1, m2) \<Rightarrow> (Some (JString str), s1, m2)))"

definition parse_scalar :: "'d libc \<Rightarrow> string \<Rightarrow> mem \<Rightarrow> ParseState \<Rightarrow> char \<Rightarrow> 'd JsonValue option \<times> ParseState \<times> mem" where
  "parse_scalar L buf m s c =
     (if isdigit c \<or> c = CHR ''-'' then
        (case make_value m of
           (False, m1) \<Rightarrow> (None, s, m1)
         | (True, m1) \<Rightarrow>
             (case parse_number L buf s of
                (None, s1) \<Rightarrow> (None, s1, m1)
              | (Some num, s1) \<Rightarrow> (Some (JNumber num), s1, m1)))
      else if strncmp_eq (cstring_at buf (curr s)) ''true'' 4 then
        (case make_value m of
           (False, m1) \<Rightarrow> (None, s, m1)
         | (True, m1) \<Rightarrow> (Some (JBool True), advance buf s 4, m1))
      else if strncmp_eq (cstring_at buf (curr s)) ''false'' 5 then
        (case make_value m of
           (False, m1) \<Rightarrow> (None, s, m1)
         | (True, m1) \<Rightarrow> (Some (JBool False), advance buf s 5, m1))
      else if strncmp_eq (cstring_at buf (curr s)) ''null'' 4 then
        (case make_value m of
           (False, m1) \<Rightarrow> (None, s, m1)
         | (True, m1) \<Rightarrow> (Some JNull, advance buf s 4, m1))
      else (None, set_error s (''Unexpected character '' @ quoted c), m))"

text \<open>
  What the loop of a container does behind an element: the closing bracket ends the
  loop, a comma that is not followed by the closing bracket continues it, anything else
  is an error.
\<close>

datatype after_element = Closed ParseState | More ParseState | Failed ParseState

definition after_array_element :: "string \<Rightarrow> ParseState \<Rightarrow> after_element" where
  "after_array_element buf s1 =
     (let s = skip_whitespace buf s1 in
      if curr s \<ge> p_end s then Failed (set_error s ''Unexpected end of input in array'')
      else if byte_at buf (curr s) = CHR '']'' then Closed (advance buf s 1)
      else if byte_at buf (curr s) = CHR '','' then
        (let s = skip_whitespace buf (advance buf s 1) in
         if byte_at buf (curr s) = CHR '']'' then Failed (set_error s ''Trailing comma in array'')
         else More s)
      else Failed (set_error s (''Expected '' @ quoted (CHR '','') @ '' or '' @ quoted (CHR '']''))))"

definition after_object_member :: "string \<Rightarrow> ParseState \<Rightarrow> after_element" where
  "after_object_member buf s1 =
     (let s = skip_whitespace buf s1 in
      if curr s \<ge> p_end s then Failed (set_error s ''Unexpected end of input in object'')
      else if byte_at buf (curr s) = CHR ''}'' then Closed (advance buf s 1)
      else if byte_at buf (curr s) = CHR '','' then
        (let s = skip_whitespace buf (advance buf s 1) in
         if byte_at buf (curr s) = CHR ''}'' then Failed (set_error s ''Trailing comma in object'')
         else More s)
      else Failed (set_error s (''Expected '' @ quoted (CHR '','') @ '' or '' @ quoted (CHR ''}''))))"

text \<open>The key of an object member and the colon behind it.\<close>

definition parse_key :: "string \<Rightarrow> mem \<Rightarrow> ParseState \<Rightarrow> string option \<times> ParseState \<times> mem" where
  "parse_key buf m s0 =
     (if byte_at buf (curr s0) \<noteq> CHR 0x22 then (None, set_error s0 ''Expected string key'', m)
      else
        (case parse_string buf m s0 of
           (None, s1, m1) \<Rightarrow> (None, s1, m1)
         | (Some k, s1, m1) \<Rightarrow>
             (let s = skip_whitespace buf s1 in
              if curr s \<ge> p_end s \<or> byte_at buf (curr s) \<noteq> CHR '':'' then
                (None, set_error s (''Expected '' @ quoted (CHR '':'') @ '' after key''), m1)
              else (Some k, advance buf s 1, m1))))"

text \<open>
  The three mutually recursive functions of the parser, and the two loops of the
  containers. The first argument bounds the number of nested calls; \<open>None\<close> is the
  result of a call that ran out of it. \<open>json_parse\<close> starts with a bound that is never
  used up. The result of a call that returned is the value or the list of nodes it
  built (\<open>None\<close> for \<open>false\<close>), the parse state and the memory.
\<close>

function parse_element :: "nat \<Rightarrow> 'd libc \<Rightarrow> string \<Rightarrow> mem \<Rightarrow> ParseState \<Rightarrow> nat
      \<Rightarrow> ('d JsonValue option \<times> ParseState \<times> mem) option"
  and parse_array :: "nat \<Rightarrow> 'd libc \<Rightarrow> string \<Rightarrow> mem \<Rightarrow> ParseState \<Rightarrow> 'd JsonValue \<Rightarrow> nat
      \<Rightarrow> ('d JsonValue option \<times> ParseState \<times> mem) option"
  and parse_array_loop :: "nat \<Rightarrow> 'd libc \<Rightarrow> string \<Rightarrow> mem \<Rightarrow> ParseState \<Rightarrow> nat
      \<Rightarrow> ('d JsonNodePtr option \<times> ParseState \<times> mem) option"
  and parse_object :: "nat \<Rightarrow> 'd libc \<Rightarrow> string \<Rightarrow> mem \<Rightarrow> ParseState \<Rightarrow> 'd JsonValue \<Rightarrow> nat
      \<Rightarrow> ('d JsonValue option \<times> ParseState \<times> mem) option"
  and parse_object_loop :: "nat \<Rightarrow> 'd libc \<Rightarrow> string \<Rightarrow> mem \<Rightarrow> ParseState \<Rightarrow> nat
      \<Rightarrow> ('d JsonNodePtr option \<times> ParseState \<times> mem) option"
where
  "parse_element 0 L buf m s depth = None"
| "parse_element (Suc fuel) L buf m s0 depth =
     (let s = skip_whitespace buf s0 in
      if curr s \<ge> p_end s then Some (None, set_error s ''Unexpected end of input'', m)
      else
        (let c = byte_at buf (curr s) in
         if c = CHR 0x22 then Some (parse_string_value buf m s)
         else if c = CHR ''['' then
           (if fst (make_value m) then parse_array fuel L buf (snd (make_value m)) s (JArray Uninit) depth
            else Some (None, s, snd (make_value m)))
         else if c = CHR ''{'' then
           (if fst (make_value m) then parse_object fuel L buf (snd (make_value m)) s (JObject Uninit) depth
            else Some (None, s, snd (make_value m)))
         else Some (parse_scalar L buf m s c)))"
| "parse_array 0 L buf m s arr depth = None"
| "parse_array (Suc fuel) L buf m s0 arr depth =
     (if depth > MAX_JSON_DEPTH then Some (None, set_error s0 ''Maximum JSON depth exceeded'', m)
      else
        (let s = skip_whitespace buf (advance buf s0 1) in
         if curr s < p_end s \<and> byte_at buf (curr s) = CHR '']'' then Some (Some arr, advance buf s 1, m)
         else
           (case parse_array_loop fuel L buf m s depth of
              None \<Rightarrow> None
            | Some (None, s1, m1) \<Rightarrow> Some (None, s1, m1)
            | Some (Some nodes, s1, m1) \<Rightarrow> Some (Some (JArray nodes), s1, m1))))"
| "parse_array_loop 0 L buf m s depth = None"
| "parse_array_loop (Suc fuel) L buf m s0 depth =
     (if curr s0 < p_end s0 then
        (case parse_element fuel L buf m s0 (depth + 1) of
           None \<Rightarrow> None
         | Some (None, s1, m1) \<Rightarrow> Some (None, s1, m1)
         | Some (Some elem, s1, m1) \<Rightarrow>
             (if fst (alloc m1 sizeof_JsonNode) then
                (case after_array_element buf s1 of
                   Failed s2 \<Rightarrow> Some (None, s2, snd (alloc m1 sizeof_JsonNode))
                 | Closed s2 \<Rightarrow> Some (Some (Node None elem NULL), s2, snd (alloc m1 sizeof_JsonNode))
                 | More s2 \<Rightarrow>
                     (case parse_array_loop fuel L buf (snd (alloc m1 sizeof_JsonNode)) s2 depth of
                        None \<Rightarrow> None
                      | Some (None, s3, m3) \<Rightarrow> Some (None, s3, m3)
                      | Some (Some rest, s3, m3) \<Rightarrow> Some (Some (Node None elem rest), s3, m3)))
              else Some (None, s1, snd (alloc m1 sizeof_JsonNode))))
      else Some (None, set_error s0 ''Unclosed array'', m))"
| "parse_object 0 L buf m s obj depth = None"
| "parse_object (Suc fuel) L buf m s0 obj depth =
     (if depth > MAX_JSON_DEPTH then Some (None, set_error s0 ''Maximum JSON depth exceeded'', m)
      else
        (let s = skip_whitespace buf (advance buf s0 1) in
         if curr s < p_end s \<and> byte_at buf (curr s) = CHR ''}'' then Some (Some obj, advance buf s 1, m)
         else
           (case parse_object_loop fuel L buf m s depth of
              None \<Rightarrow> None
            | Some (None, s1, m1) \<Rightarrow> Some (None, s1, m1)
            | Some (Some nodes, s1, m1) \<Rightarrow> Some (Some (JObject nodes), s1, m1))))"
| "parse_object_loop 0 L buf m s depth = None"
| "parse_object_loop (Suc fuel) L buf m s0 depth =
     (if curr s0 < p_end s0 then
        (case parse_key buf m s0 of
           (None, s1, m1) \<Rightarrow> Some (None, s1, m1)
         | (Some k, s1, m1) \<Rightarrow>
             (case parse_element fuel L buf m1 s1 (depth + 1) of
                None \<Rightarrow> None
              | Some (None, s2, m2) \<Rightarrow> Some (None, s2, m2)
              | Some (Some v, s2, m2) \<Rightarrow>
                  (if fst (alloc m2 sizeof_JsonNode) then
                     (case after_object_member buf s2 of
                        Failed s3 \<Rightarrow> Some (None, s3, snd (alloc m2 sizeof_JsonNode))
                      | Closed s3 \<Rightarrow> Some (Some (Node (Some k) v NULL), s3, snd (alloc m2 sizeof_JsonNode))
                      | More s3 \<Rightarrow>
                          (case parse_object_loop fuel L buf (snd (alloc m2 sizeof_JsonNode)) s3 depth of
                             None \<Rightarrow> None
                           | Some (None, s4, m4) \<Rightarrow> Some (None, s4, m4)
                           | Some (Some rest, s4, m4) \<Rightarrow> Some (Some (Node (Some k) v rest), s4, m4)))
                   else Some (None, s2, snd (alloc m2 sizeof_JsonNode)))))
      else Some (None, set_error s0 ''Unclosed object'', m))"
  by pat_completeness auto
termination
  by (relation "measure (\<lambda>x. case x of
        Inl (Inl (f, _)) \<Rightarrow> f
      | Inl (Inr (f, _)) \<Rightarrow> f
      | Inr (Inl (f, _)) \<Rightarrow> f
      | Inr (Inr (Inl (f, _))) \<Rightarrow> f
      | Inr (Inr (Inr (f, _))) \<Rightarrow> f)") auto

text \<open>
  \<open>json_parse\<close>. The arena, the input and the error slot are pointers that may be null.
  The result is the root (or the null pointer), the error slot, and the memory.
\<close>

definition json_parse :: "'d libc \<Rightarrow> sys \<Rightarrow> Arena option \<Rightarrow> string option \<Rightarrow> nat \<Rightarrow> JsonError option
    \<Rightarrow> 'd JsonValue option \<times> JsonError option \<times> sys \<times> Arena option" where
  "json_parse L sy a input len error =
     (case a of
        None \<Rightarrow> (None, error, sy, a)
      | Some ar \<Rightarrow>
          (case input of
             None \<Rightarrow> (None, error, sy, a)
           | Some buf \<Rightarrow>
               if len = 0 then (None, error, sy, a)
               else
                 (let error = (case error of
                                 None \<Rightarrow> None
                               | Some e \<Rightarrow> Some \<lparr>e_msg = [], e_line = 0, e_col = 0, e_offset = 0\<rparr>);
                      s = \<lparr>curr = 0, p_end = len, line = 1, col = 1, err = error\<rparr>
                  in
                  case parse_element (3 * len + 3) L buf (sy, ar) s 0 of
                    None \<Rightarrow> (None, error, sy, a)
                  | Some (None, s1, (sy1, ar1)) \<Rightarrow> (None, err s1, sy1, Some ar1)
                  | Some (Some root, s1, (sy1, ar1)) \<Rightarrow>
                      (let s2 = skip_whitespace buf s1 in
                       if curr s2 \<noteq> p_end s2 then
                         (None, err (set_error s2 ''Unexpected garbage after JSON data''), sy1, Some ar1)
                       else (Some root, err s2, sy1, Some ar1)))))"

section \<open>The serializer (json.c)\<close>

text \<open>
  The writer state is the buffer and the position \<open>*pos\<close>. The buffer is \<open>None\<close> for
  the null pointer of the counting pass, or the bytes of the memory that
  \<open>json_to_string\<close> allocated. A function of the writer returns \<open>None\<close> where the
  behaviour of the C code is undefined: a store behind the end of the buffer, a read
  through an indeterminate node pointer or through the null key of an object member.
  \<open>memcpy\<close> of no bytes stores nothing.
\<close>

type_synonym wstate = "string option \<times> nat"

definition w_str :: "wstate \<Rightarrow> string \<Rightarrow> wstate option" where
  "w_str st s =
     (case st of
        (None, pos) \<Rightarrow> Some (None, pos + length s)
      | (Some buf, pos) \<Rightarrow>
          if length s = 0 then Some st
          else if pos + length s \<le> length buf
          then Some (Some (take pos buf @ s @ drop (pos + length s) buf), pos + length s)
          else None)"

definition w_char :: "wstate \<Rightarrow> char \<Rightarrow> wstate option" where
  "w_char st c =
     (case st of
        (None, pos) \<Rightarrow> Some (None, pos + 1)
      | (Some buf, pos) \<Rightarrow>
          if pos < length buf then Some (Some (buf[pos := c]), pos + 1) else None)"

text \<open>\<open>for (int i = 0; i < n; i++) w_char(buf, pos, ' ')\<close>.\<close>

fun w_spaces :: "wstate \<Rightarrow> nat \<Rightarrow> wstate option" where
  "w_spaces st 0 = Some st"
| "w_spaces st (Suc n) = w_char st (CHR '' '') \<bind> (\<lambda>st. w_spaces st n)"

definition hex_digit :: "nat \<Rightarrow> char" where
  "hex_digit n = (if n < 10 then char_of (48 + n) else char_of (65 + (n - 10)))"

text \<open>\<open>sprintf(hex, "\\u00%02X", c)\<close>.\<close>

definition u00XX :: "char \<Rightarrow> string" where
  "u00XX c = [CHR 0x5C, CHR ''u'', CHR ''0'', CHR ''0'',
              hex_digit ((of_char c :: nat) div 16), hex_digit ((of_char c :: nat) mod 16)]"

text \<open>The loop of \<open>w_escaped_string\<close>; it ends at the terminating NUL.\<close>

fun w_escaped_chars :: "wstate \<Rightarrow> string \<Rightarrow> wstate option" where
  "w_escaped_chars st [] = Some st"
| "w_escaped_chars st (c # s) =
     (if c = NUL then Some st
      else
        (if c = CHR 0x22 then w_str st [CHR 0x5C, CHR 0x22]
         else if c = CHR 0x5C then w_str st [CHR 0x5C, CHR 0x5C]
         else if c = CHR 0x08 then w_str st [CHR 0x5C, CHR ''b'']
         else if c = CHR 0x0C then w_str st [CHR 0x5C, CHR ''f'']
         else if c = CHR 0x0A then w_str st [CHR 0x5C, CHR ''n'']
         else if c = CHR 0x0D then w_str st [CHR 0x5C, CHR ''r'']
         else if c = CHR 0x09 then w_str st [CHR 0x5C, CHR ''t'']
         else if (of_char c :: nat) < 0x20 then w_str st (u00XX c)
         else w_char st c)
        \<bind> (\<lambda>st. w_escaped_chars st s))"

definition w_escaped_string :: "wstate \<Rightarrow> string \<Rightarrow> wstate option" where
  "w_escaped_string st s =
     w_char st (CHR 0x22) \<bind> (\<lambda>st. w_escaped_chars st s \<bind> (\<lambda>st. w_char st (CHR 0x22)))"

text \<open>An optional write: \<open>if (pretty) ...\<close>.\<close>

definition when_pretty :: "bool \<Rightarrow> (wstate \<Rightarrow> wstate option) \<Rightarrow> wstate \<Rightarrow> wstate option" where
  "when_pretty pretty f st = (if pretty then f st else Some st)"

text \<open>
  \<open>json_write_internal\<close> with the loops of its two container cases. The pointer \<open>v\<close> is
  not null here: \<open>json_to_string\<close> checks the root and a node never holds a null value.
\<close>

fun json_write_internal :: "'d libc \<Rightarrow> 'd JsonValue \<Rightarrow> wstate \<Rightarrow> nat \<Rightarrow> bool \<Rightarrow> wstate option"
  and write_array_nodes :: "'d libc \<Rightarrow> 'd JsonNodePtr \<Rightarrow> wstate \<Rightarrow> nat \<Rightarrow> bool \<Rightarrow> wstate option"
  and write_object_nodes :: "'d libc \<Rightarrow> 'd JsonNodePtr \<Rightarrow> wstate \<Rightarrow> nat \<Rightarrow> bool \<Rightarrow> wstate option"
where
  "json_write_internal L JNull st indent pretty = w_str st ''null''"
| "json_write_internal L (JBool b) st indent pretty = w_str st (if b then ''true'' else ''false'')"
| "json_write_internal L (JNumber n) st indent pretty =
     (if \<not> isfinite L n then w_str st ''null'' else w_str st (cstr (take 63 (fmt_17g L n))))"
| "json_write_internal L (JString s) st indent pretty = w_escaped_string st s"
| "json_write_internal L (JArray head) st indent pretty =
     w_char st (CHR ''['') \<bind> (\<lambda>st.
       (case head of
          NULL \<Rightarrow> Some st
        | Uninit \<Rightarrow> None
        | Node k v n \<Rightarrow>
            when_pretty pretty (\<lambda>st. w_char st (CHR 0x0A)) st \<bind> (\<lambda>st.
            write_array_nodes L head st indent pretty \<bind> (\<lambda>st.
            when_pretty pretty (\<lambda>st. w_char st (CHR 0x0A) \<bind> (\<lambda>st. w_spaces st indent)) st)))
       \<bind> (\<lambda>st. w_char st (CHR '']'')))"
| "json_write_internal L (JObject head) st indent pretty =
     w_char st (CHR ''{'') \<bind> (\<lambda>st.
       (case head of
          NULL \<Rightarrow> Some st
        | Uninit \<Rightarrow> None
        | Node k v n \<Rightarrow>
            when_pretty pretty (\<lambda>st. w_char st (CHR 0x0A)) st \<bind> (\<lambda>st.
            write_object_nodes L head st indent pretty \<bind> (\<lambda>st.
            when_pretty pretty (\<lambda>st. w_char st (CHR 0x0A) \<bind> (\<lambda>st. w_spaces st indent)) st)))
       \<bind> (\<lambda>st. w_char st (CHR ''}'')))"
| "write_array_nodes L NULL st indent pretty = Some st"
| "write_array_nodes L Uninit st indent pretty = None"
| "write_array_nodes L (Node k v n) st indent pretty =
     when_pretty pretty (\<lambda>st. w_spaces st (indent + 2)) st \<bind> (\<lambda>st.
     json_write_internal L v st (indent + (if pretty then 2 else 0)) pretty \<bind> (\<lambda>st.
     (case n of
        NULL \<Rightarrow> Some st
      | Uninit \<Rightarrow> None
      | Node k' v' n' \<Rightarrow>
          w_char st (CHR '','') \<bind> (\<lambda>st. when_pretty pretty (\<lambda>st. w_char st (CHR 0x0A)) st))
     \<bind> (\<lambda>st. write_array_nodes L n st indent pretty)))"
| "write_object_nodes L NULL st indent pretty = Some st"
| "write_object_nodes L Uninit st indent pretty = None"
| "write_object_nodes L (Node k v n) st indent pretty =
     when_pretty pretty (\<lambda>st. w_spaces st (indent + 2)) st \<bind> (\<lambda>st.
     (case k of None \<Rightarrow> None | Some ks \<Rightarrow> w_escaped_string st ks) \<bind> (\<lambda>st.
     w_str st (if pretty then '': '' else '':'') \<bind> (\<lambda>st.
     json_write_internal L v st (indent + (if pretty then 2 else 0)) pretty \<bind> (\<lambda>st.
     (case n of
        NULL \<Rightarrow> Some st
      | Uninit \<Rightarrow> None
      | Node k' v' n' \<Rightarrow>
          w_char st (CHR '','') \<bind> (\<lambda>st. when_pretty pretty (\<lambda>st. w_char st (CHR 0x0A)) st))
     \<bind> (\<lambda>st. write_object_nodes L n st indent pretty)))))"

text \<open>
  \<open>json_to_string\<close>. The memory that \<open>arena_alloc\<close> returns holds arbitrary bytes
  \<open>junk\<close>. The result is \<open>None\<close> where the behaviour is undefined, else the buffer with
  its terminator (or the null pointer) and the memory.
\<close>

definition json_to_string :: "'d libc \<Rightarrow> (nat \<Rightarrow> char) \<Rightarrow> sys \<Rightarrow> Arena option \<Rightarrow> 'd JsonValue option \<Rightarrow> bool
    \<Rightarrow> (string option \<times> sys \<times> Arena option) option" where
  "json_to_string L junk sy a v pretty =
     (case (a, v) of
        (Some ar, Some val) \<Rightarrow>
          (case json_write_internal L val (None, 0) 0 pretty of
             None \<Rightarrow> None
           | Some (_, len) \<Rightarrow>
               (case arena_alloc sy ar (of_nat (len + 1)) of
                  (None, sy1, ar1) \<Rightarrow> Some (None, sy1, Some ar1)
                | (Some p, sy1, ar1) \<Rightarrow>
                    (let result = map junk [0 ..< unat (of_nat (len + 1) :: size_t)] in
                     case json_write_internal L val (Some result, 0) 0 pretty of
                       None \<Rightarrow> None
                     | Some (None, pos) \<Rightarrow> None
                     | Some (Some result, pos) \<Rightarrow>
                         if pos < length result then Some (Some (result[pos := NUL]), sy1, Some ar1)
                         else None)))
      | _ \<Rightarrow> Some (None, sy, a))"

section \<open>The builder (json.c)\<close>





definition json_create_array :: "sys \<Rightarrow> Arena option \<Rightarrow> 'd JsonValue option \<times> sys \<times> Arena option" where
  "json_create_array sy a =
     (case a of
        None \<Rightarrow> (None, sy, a)
      | Some ar \<Rightarrow> (case make_value (sy, ar) of (ok, (sy1, ar1)) \<Rightarrow>
          (if ok then Some (JArray Uninit) else None, sy1, Some ar1)))"

definition json_create_object :: "sys \<Rightarrow> Arena option \<Rightarrow> 'd JsonValue option \<times> sys \<times> Arena option" where
  "json_create_object sy a =
     (case a of
        None \<Rightarrow> (None, sy, a)
      | Some ar \<Rightarrow> (case make_value (sy, ar) of (ok, (sy1, ar1)) \<Rightarrow>
          (if ok then Some (JObject Uninit) else None, sy1, Some ar1)))"

text \<open>
  The walk of \<open>json_list_append\<close> to the last node, where the new node is linked:
  \<open>None\<close> where it reads an indeterminate pointer.
\<close>

fun link_last :: "'d JsonNodePtr \<Rightarrow> 'd JsonNodePtr \<Rightarrow> 'd JsonNodePtr option" where
  "link_last NULL node = Some node"
| "link_last Uninit node = None"
| "link_last (Node k v n) node = map_option (Node k v) (link_last n node)"

text \<open>
  \<open>json_list_append\<close>, \<open>json_add\<close> and \<open>json_append\<close> return nothing; they change the
  arena and the parent. The model returns the memory and the parent after the call, or
  \<open>None\<close> where the behaviour is undefined. A parent that is not a container has no
  list head to read.
\<close>

definition json_list_append :: "sys \<Rightarrow> Arena option \<Rightarrow> 'd JsonValue option \<Rightarrow> string option \<Rightarrow> 'd JsonValue option
    \<Rightarrow> (sys \<times> Arena option \<times> 'd JsonValue option) option" where
  "json_list_append sy a parent k v =
     (case (a, parent, v) of
        (Some ar, Some par, Some val) \<Rightarrow>
          (case alloc (sy, ar) sizeof_JsonNode of
             (False, (sy1, ar1)) \<Rightarrow> Some (sy1, Some ar1, parent)
           | (True, m1) \<Rightarrow>
               (let (node_key, (sy2, ar2)) =
                      (case k of
                         Some bytes \<Rightarrow>
                           (let len = length (cstr bytes) in
                            case alloc m1 (of_nat (len + 1)) of
                              (False, m2) \<Rightarrow> (None, m2)
                            | (True, m2) \<Rightarrow> (Some (cstr bytes), m2))
                       | None \<Rightarrow> (None, m1));
                    node = Node node_key val NULL
                in
                case par of
                  JArray head \<Rightarrow> map_option (\<lambda>h. (sy2, Some ar2, Some (JArray h))) (link_last head node)
                | JObject head \<Rightarrow> map_option (\<lambda>h. (sy2, Some ar2, Some (JObject h))) (link_last head node)
                | _ \<Rightarrow> None))
      | _ \<Rightarrow> Some (sy, a, parent))"

definition json_add :: "sys \<Rightarrow> Arena option \<Rightarrow> 'd JsonValue option \<Rightarrow> string option \<Rightarrow> 'd JsonValue option
    \<Rightarrow> (sys \<times> Arena option \<times> 'd JsonValue option) option" where
  "json_add sy a obj k v =
     (case (obj, k, v) of
        (Some ob, Some _, Some _) \<Rightarrow>
          if type_of ob = JSON_OBJECT then json_list_append sy a obj k v
          else Some (sy, a, obj)
      | _ \<Rightarrow> Some (sy, a, obj))"

definition json_append :: "sys \<Rightarrow> Arena option \<Rightarrow> 'd JsonValue option \<Rightarrow> 'd JsonValue option
    \<Rightarrow> (sys \<times> Arena option \<times> 'd JsonValue option) option" where
  "json_append sy a arr v =
     (case (arr, v) of
        (Some ar, Some _) \<Rightarrow>
          if type_of ar = JSON_ARRAY then json_list_append sy a arr None v
          else Some (sy, a, arr)
      | _ \<Rightarrow> Some (sy, a, arr))"

section \<open>Instances and predicates for the statements\<close>

text \<open>
  A system heap that never runs out, and one that has nothing left.
\<close>

definition plenty :: sys where
  "plenty = \<lparr>answers = (\<lambda>n. Some (of_nat (1048576 * (n + 1)))), ncalls = 0, freed = []\<rparr>"


text \<open>Every call of \<open>malloc\<close> from now on succeeds.\<close>

definition mem_ok :: "mem \<Rightarrow> bool" where
  "mem_ok m = (\<forall>i \<ge> ncalls (fst m). answers (fst m) i \<noteq> None)"

text \<open>A call of \<open>malloc\<close> made between two states of the system heap failed.\<close>

definition malloc_failed :: "sys \<Rightarrow> sys \<Rightarrow> bool" where
  "malloc_failed sy sy' = (\<exists>i \<in> {ncalls sy ..< ncalls sy'}. answers sy i = None)"

text \<open>
  What a call that allocates does to the system heap: it makes calls of \<open>malloc\<close>, and
  it succeeds if and only if none of them failed.
\<close>

definition sys_step :: "sys \<Rightarrow> bool \<Rightarrow> sys \<Rightarrow> bool" where
  "sys_step s ok s' \<longleftrightarrow> answers s' = answers s \<and> ncalls s \<le> ncalls s' \<and> (ok \<longleftrightarrow> \<not> malloc_failed s s')"

text \<open>
  A C library for the examples: its doubles are the integers and one value that is not
  finite, printed and read in decimal.
\<close>

fun digits_of :: "nat \<Rightarrow> nat \<Rightarrow> string" where
  "digits_of 0 n = []"
| "digits_of (Suc f) n =
     (if n < 10 then [char_of (48 + n)] else digits_of f (n div 10) @ [char_of (48 + n mod 10)])"

definition show_int :: "int \<Rightarrow> string" where
  "show_int i =
     (if i < 0 then CHR ''-'' # digits_of (Suc (nat (- i))) (nat (- i))
      else digits_of (Suc (nat i)) (nat i))"

fun read_digits :: "string \<Rightarrow> nat \<Rightarrow> nat \<times> nat" where
  "read_digits [] acc = (acc, 0)"
| "read_digits (c # cs) acc =
     (if isdigit c then (case read_digits cs (acc * 10 + (of_char c - 48)) of (v, n) \<Rightarrow> (v, Suc n))
      else (acc, 0))"

definition read_int :: "string \<Rightarrow> int option \<times> nat" where
  "read_int s =
     (case s of
        c # cs \<Rightarrow>
          if c = CHR ''-'' then (case read_digits cs 0 of (v, n) \<Rightarrow> (Some (- int v), Suc n))
          else (case read_digits s 0 of (v, n) \<Rightarrow> (Some (int v), n))
      | [] \<Rightarrow> (Some 0, 0))"

definition example_libc :: "int option libc" where
  "example_libc =
     \<lparr>strtod = read_int,
      fmt_17g = (\<lambda>d. case d of None \<Rightarrow> ''nan'' | Some i \<Rightarrow> show_int i),
      isfinite = (\<lambda>d. d \<noteq> None),
      d_of_int = Some,
      d_mul = (\<lambda>a b. case (a, b) of (Some x, Some y) \<Rightarrow> Some (x * y) | _ \<Rightarrow> None),
      d_add = (\<lambda>a b. case (a, b) of (Some x, Some y) \<Rightarrow> Some (x + y) | _ \<Rightarrow> None)\<rparr>"

text \<open>
  The text of a value, for comparing the two passes of the serializer: what
  \<open>json_write_internal\<close> appends at the given indentation, \<open>None\<close> where it reads an
  indeterminate pointer or a null key.
\<close>

fun escaped_chars :: "string \<Rightarrow> string" where
  "escaped_chars [] = []"
| "escaped_chars (c # s) =
     (if c = NUL then []
      else
        (if c = CHR 0x22 then [CHR 0x5C, CHR 0x22]
         else if c = CHR 0x5C then [CHR 0x5C, CHR 0x5C]
         else if c = CHR 0x08 then [CHR 0x5C, CHR ''b'']
         else if c = CHR 0x0C then [CHR 0x5C, CHR ''f'']
         else if c = CHR 0x0A then [CHR 0x5C, CHR ''n'']
         else if c = CHR 0x0D then [CHR 0x5C, CHR ''r'']
         else if c = CHR 0x09 then [CHR 0x5C, CHR ''t'']
         else if (of_char c :: nat) < 0x20 then u00XX c
         else [c])
        @ escaped_chars s)"

definition escaped :: "string \<Rightarrow> string" where
  "escaped s = CHR 0x22 # escaped_chars s @ [CHR 0x22]"

definition spaces :: "nat \<Rightarrow> string" where
  "spaces n = replicate n (CHR '' '')"

text \<open>The comma and the newline between a node and the node behind it.\<close>

definition separator :: "'d JsonNodePtr \<Rightarrow> bool \<Rightarrow> string option" where
  "separator n pretty =
     (case n of
        NULL \<Rightarrow> Some []
      | Uninit \<Rightarrow> None
      | Node k v n' \<Rightarrow> Some (CHR '','' # (if pretty then [CHR 0x0A] else [])))"

fun json_text :: "'d libc \<Rightarrow> 'd JsonValue \<Rightarrow> nat \<Rightarrow> bool \<Rightarrow> string option"
  and array_text :: "'d libc \<Rightarrow> 'd JsonNodePtr \<Rightarrow> nat \<Rightarrow> bool \<Rightarrow> string option"
  and object_text :: "'d libc \<Rightarrow> 'd JsonNodePtr \<Rightarrow> nat \<Rightarrow> bool \<Rightarrow> string option"
where
  "json_text L JNull indent pretty = Some ''null''"
| "json_text L (JBool b) indent pretty = Some (if b then ''true'' else ''false'')"
| "json_text L (JNumber n) indent pretty =
     Some (if \<not> isfinite L n then ''null'' else cstr (take 63 (fmt_17g L n)))"
| "json_text L (JString s) indent pretty = Some (escaped s)"
| "json_text L (JArray head) indent pretty =
     (case head of
        NULL \<Rightarrow> Some ''[]''
      | Uninit \<Rightarrow> None
      | Node k v n \<Rightarrow>
          (case array_text L head indent pretty of
             None \<Rightarrow> None
           | Some t \<Rightarrow>
               Some (''['' @ (if pretty then [CHR 0x0A] else []) @ t
                     @ (if pretty then CHR 0x0A # spaces indent else []) @ '']'')))"
| "json_text L (JObject head) indent pretty =
     (case head of
        NULL \<Rightarrow> Some ''{}''
      | Uninit \<Rightarrow> None
      | Node k v n \<Rightarrow>
          (case object_text L head indent pretty of
             None \<Rightarrow> None
           | Some t \<Rightarrow>
               Some (''{'' @ (if pretty then [CHR 0x0A] else []) @ t
                     @ (if pretty then CHR 0x0A # spaces indent else []) @ ''}'')))"
| "array_text L NULL indent pretty = Some []"
| "array_text L Uninit indent pretty = None"
| "array_text L (Node k v n) indent pretty =
     (case (json_text L v (indent + (if pretty then 2 else 0)) pretty, separator n pretty,
            array_text L n indent pretty) of
        (Some tv, Some sep, Some tn) \<Rightarrow> Some ((if pretty then spaces (indent + 2) else []) @ tv @ sep @ tn)
      | _ \<Rightarrow> None)"
| "object_text L NULL indent pretty = Some []"
| "object_text L Uninit indent pretty = None"
| "object_text L (Node k v n) indent pretty =
     (case (k, json_text L v (indent + (if pretty then 2 else 0)) pretty, separator n pretty,
            object_text L n indent pretty) of
        (Some ks, Some tv, Some sep, Some tn) \<Rightarrow>
          Some ((if pretty then spaces (indent + 2) else []) @ escaped ks
                @ (if pretty then '': '' else '':'') @ tv @ sep @ tn)
      | _ \<Rightarrow> None)"

text \<open>A write of the text, if there is one.\<close>

definition w_text :: "wstate \<Rightarrow> string option \<Rightarrow> wstate option" where
  "w_text st t = (case t of None \<Rightarrow> None | Some x \<Rightarrow> w_str st x)"

text \<open>
  What a call of the parser does to the system heap: it makes calls of \<open>malloc\<close>, and
  where it succeeds none of them failed.
\<close>

definition heap_ok :: "mem \<Rightarrow> bool \<Rightarrow> mem \<Rightarrow> bool" where
  "heap_ok m ok m' \<longleftrightarrow>
     answers (fst m') = answers (fst m) \<and> ncalls (fst m) \<le> ncalls (fst m') \<and>
     (ok \<longrightarrow> \<not> malloc_failed (fst m) (fst m'))"

text \<open>What a call of the parser does to the position: it moves forward, not behind the end.\<close>

definition steps :: "ParseState \<Rightarrow> ParseState \<Rightarrow> bool" where
  "steps s s' \<longleftrightarrow> p_end s' = p_end s \<and> curr s \<le> curr s' \<and> (curr s \<le> p_end s \<longrightarrow> curr s' \<le> p_end s)"



subsection \<open>Predicates of the round trip\<close>

text \<open>
  The text \<open>t\<close> stands in the buffer at position \<open>p\<close>.
\<close>

definition text_at :: "string \<Rightarrow> nat \<Rightarrow> string \<Rightarrow> bool" where
  "text_at buf p t = (take (length t) (drop p buf) = t)"











section \<open>Properties of the allocator\<close>

lemmas arena_eval = arena_alloc_def arena_alloc_in_def arena__new_region_def malloc_def
  alloc_proceed_def grow_capacity_def arena__align_forward_def data_of_def ARENA_ALIGNMENT_def
  ARENA_DEFAULT_BLOCK_SIZE_def sizeof_ArenaRegion_def arena_init_def arena_reset_def plenty_def
  arena_temp_begin_def arena_temp_end_def free_def Let_def

lemma arena_walk_eq:
  "arena_walk s sz rs =
     (s\<lparr>freed := freed s @ map base (takeWhile (\<lambda>r. capacity r < sz + ARENA_ALIGNMENT) rs)\<rparr>,
      (case dropWhile (\<lambda>r. capacity r < sz + ARENA_ALIGNMENT) rs of [] \<Rightarrow> None | r # _ \<Rightarrow> Some (r\<lparr>count := 0\<rparr>)),
      (case dropWhile (\<lambda>r. capacity r < sz + ARENA_ALIGNMENT) rs of [] \<Rightarrow> [] | _ # rest \<Rightarrow> rest))"
proof (induction rs arbitrary: s)
  case Nil
  show ?case by simp
next
  case (Cons r rs)
  show ?case
  proof (cases "capacity r < sz + ARENA_ALIGNMENT")
    case True
    then have "\<not> sz + ARENA_ALIGNMENT \<le> capacity r" by simp
    then show ?thesis using True Cons.IH [of "free s (base r)"]
      by (simp add: free_def)
  next
    case False
    then have "sz + ARENA_ALIGNMENT \<le> capacity r" by simp
    then show ?thesis using False by simp
  qed
qed

lemma grow_capacity_max:
  "grow_capacity cur sz = max (max (capacity cur * 2) (sz + ARENA_ALIGNMENT)) ARENA_DEFAULT_BLOCK_SIZE"
  by (auto simp: grow_capacity_def Let_def max_def)

lemma arena_alloc_in_overflow:
  assumes lt: "e < length rs"
    and over: "count (rs ! e)
        + (arena__align_forward (data_of (rs ! e) + count (rs ! e)) ARENA_ALIGNMENT
            - (data_of (rs ! e) + count (rs ! e)))
        + sz > capacity (rs ! e)"
  shows "arena_alloc_in s rs e sz =
    (let needed = sz + ARENA_ALIGNMENT;
         later = drop (Suc e) rs;
         s1 = s\<lparr>freed := freed s @ map base (takeWhile (\<lambda>r. capacity r < needed) later)\<rparr>
     in case dropWhile (\<lambda>r. capacity r < needed) later of
          r # rest \<Rightarrow>
            (let p = arena__align_forward (data_of r) ARENA_ALIGNMENT in
             (Some p, s1,
              \<lparr>chain = take (Suc e) rs @ r\<lparr>count := 0 + ((p - data_of r) + sz)\<rparr> # rest,
               end_idx = Some (Suc e)\<rparr>))
        | [] \<Rightarrow>
            (let new_cap = max (max (capacity (rs ! e) * 2) needed) ARENA_DEFAULT_BLOCK_SIZE in
             case malloc s1 (sizeof_ArenaRegion + new_cap) of
               (None, s2) \<Rightarrow> (None, s2, \<lparr>chain = take (Suc e) rs, end_idx = Some e\<rparr>)
             | (Some b, s2) \<Rightarrow>
                 (let p = arena__align_forward (b + sizeof_ArenaRegion) ARENA_ALIGNMENT in
                  (Some p, s2,
                   \<lparr>chain = take (Suc e) rs
                       @ [\<lparr>capacity = new_cap, count = 0 + ((p - (b + sizeof_ArenaRegion)) + sz), base = b\<rparr>],
                    end_idx = Some (Suc e)\<rparr>))))"
proof -
  define needed where "needed = sz + ARENA_ALIGNMENT"
  define later where "later = drop (Suc e) rs"
  define s1 where "s1 = s\<lparr>freed := freed s @ map base (takeWhile (\<lambda>r. capacity r < needed) later)\<rparr>"
  have len: "length (take (Suc e) rs) = Suc e" using lt by simp
  have walk: "arena_walk s sz later =
     (s1, (case dropWhile (\<lambda>r. capacity r < needed) later of [] \<Rightarrow> None | r # _ \<Rightarrow> Some (r\<lparr>count := 0\<rparr>)),
      (case dropWhile (\<lambda>r. capacity r < needed) later of [] \<Rightarrow> [] | _ # rest \<Rightarrow> rest))"
    unfolding s1_def needed_def by (rule arena_walk_eq)
  show ?thesis
  proof (cases "dropWhile (\<lambda>r. capacity r < needed) later")
    case Nil
    have "arena_walk s sz later = (s1, None, [])"
      by (simp only: walk Nil list.case)
    then have w: "arena_walk s sz (drop (Suc e) rs) = (s1, None, [])"
      by (simp only: later_def)
    show ?thesis
      unfolding arena_alloc_in_def Let_def
      using over lt
      by (simp add: w Nil [unfolded later_def] needed_def [symmetric] s1_def [symmetric, unfolded later_def]
          grow_capacity_max arena__new_region_def alloc_proceed_def nth_append list_update_append data_of_def
          split: prod.splits option.splits)
  next
    case (Cons r rest)
    have "arena_walk s sz later = (s1, Some (r\<lparr>count := 0\<rparr>), rest)"
      by (simp only: walk Cons list.case)
    then have w: "arena_walk s sz (drop (Suc e) rs) = (s1, Some (r\<lparr>count := 0\<rparr>), rest)"
      by (simp only: later_def)
    show ?thesis
      unfolding arena_alloc_in_def Let_def
      using over lt
      by (simp add: w Cons [unfolded later_def] needed_def [symmetric] s1_def [symmetric, unfolded later_def]
          alloc_proceed_def nth_append list_update_append data_of_def)
  qed
qed

text \<open>
  Claim C5. The test for the current region and the needed capacity of the walk are sums
  of \<open>size_t\<close> that the source does not guard against wrap-around, so the walk of the
  claim is not what \<open>arena_alloc\<close> does for a request close to \<open>SIZE_MAX\<close>.
  From a fresh arena, two allocations of 8184 bytes and 1 byte link a second region of
  16384 bytes; after \<open>arena_reset\<close> and another allocation of 8184 bytes the first region
  is full. A request of \<open>2^64 - 4\<close> bytes then overflows the first region, the needed
  capacity wraps to 12, and the region of 16384 bytes is adopted: the call returns a
  pointer into it and leaves its used-byte count at 4. And with 100 of 8192 bytes used, a
  request of \<open>2^64 - 50\<close> bytes passes the test of the current region, whose sum wraps to
  54: the call returns a pointer into the current region, with no walk and no new region.
\<close>

theorem arena_alloc_size_wraps:
  "arena_allocs plenty arena_init [8184, 1]
     = (plenty\<lparr>ncalls := 2\<rparr>,
        \<lparr>chain = [\<lparr>capacity = 8192, count = 8192, base = 1048576\<rparr>,
                  \<lparr>capacity = 16384, count = 9, base = 2097152\<rparr>], end_idx = Some 1\<rparr>) \<and>
   arena_allocs (plenty\<lparr>ncalls := 2\<rparr>)
      (arena_reset \<lparr>chain = [\<lparr>capacity = 8192, count = 8192, base = 1048576\<rparr>,
                             \<lparr>capacity = 16384, count = 9, base = 2097152\<rparr>], end_idx = Some 1\<rparr>) [8184]
     = (plenty\<lparr>ncalls := 2\<rparr>,
        \<lparr>chain = [\<lparr>capacity = 8192, count = 8192, base = 1048576\<rparr>,
                  \<lparr>capacity = 16384, count = 9, base = 2097152\<rparr>], end_idx = Some 0\<rparr>) \<and>
   arena_alloc (plenty\<lparr>ncalls := 2\<rparr>)
      \<lparr>chain = [\<lparr>capacity = 8192, count = 8192, base = 1048576\<rparr>,
                \<lparr>capacity = 16384, count = 9, base = 2097152\<rparr>], end_idx = Some 0\<rparr>
      18446744073709551612
     = (Some 2097184, plenty\<lparr>ncalls := 2\<rparr>,
        \<lparr>chain = [\<lparr>capacity = 8192, count = 8192, base = 1048576\<rparr>,
                  \<lparr>capacity = 16384, count = 4, base = 2097152\<rparr>], end_idx = Some 1\<rparr>) \<and>
   arena_allocs plenty arena_init [92]
     = (plenty\<lparr>ncalls := 1\<rparr>,
        \<lparr>chain = [\<lparr>capacity = 8192, count = 100, base = 1048576\<rparr>], end_idx = Some 0\<rparr>) \<and>
   arena_alloc (plenty\<lparr>ncalls := 1\<rparr>)
      \<lparr>chain = [\<lparr>capacity = 8192, count = 100, base = 1048576\<rparr>], end_idx = Some 0\<rparr>
      18446744073709551566
     = (Some 1048704, plenty\<lparr>ncalls := 1\<rparr>,
        \<lparr>chain = [\<lparr>capacity = 8192, count = 54, base = 1048576\<rparr>], end_idx = Some 0\<rparr>)"
  by (simp add: arena_eval)

text \<open>
  Property X1. Read with the sums and products of \<open>size_t\<close>, which wrap at \<open>2^64\<close>, the
  walk is the one of the source. For an arena with a current region: when the wrapped sum
  \<open>count + padding + size\<close> exceeds the capacity of the current region, \<open>arena_alloc\<close>
  walks the regions linked after it: the regions in front of the first one whose capacity
  is at least the wrapped sum \<open>size + ARENA_ALIGNMENT\<close> are unlinked and freed, and that
  region is adopted with its count restarted at zero. If there is none, every later
  region has been freed and a region of capacity
  \<open>max (2 * capacity, size + ARENA_ALIGNMENT, ARENA_DEFAULT_BLOCK_SIZE)\<close> is requested from
  \<open>malloc\<close>, linked after the current region and adopted; if \<open>malloc\<close> fails, the call
  returns the null pointer and the current region stays.
\<close>

theorem arena_alloc_overflow:
  assumes e: "end_idx a = Some e" and lt: "e < length (chain a)" and nz: "sz \<noteq> 0"
    and over: "count (chain a ! e)
        + (arena__align_forward (data_of (chain a ! e) + count (chain a ! e)) ARENA_ALIGNMENT
            - (data_of (chain a ! e) + count (chain a ! e)))
        + sz > capacity (chain a ! e)"
  shows "arena_alloc s a sz =
    (let needed = sz + ARENA_ALIGNMENT;
         later = drop (Suc e) (chain a);
         s1 = s\<lparr>freed := freed s @ map base (takeWhile (\<lambda>r. capacity r < needed) later)\<rparr>
     in case dropWhile (\<lambda>r. capacity r < needed) later of
          r # rest \<Rightarrow>
            (let p = arena__align_forward (data_of r) ARENA_ALIGNMENT in
             (Some p, s1,
              \<lparr>chain = take (Suc e) (chain a) @ r\<lparr>count := 0 + ((p - data_of r) + sz)\<rparr> # rest,
               end_idx = Some (Suc e)\<rparr>))
        | [] \<Rightarrow>
            (let new_cap = max (max (capacity (chain a ! e) * 2) needed) ARENA_DEFAULT_BLOCK_SIZE in
             case malloc s1 (sizeof_ArenaRegion + new_cap) of
               (None, s2) \<Rightarrow> (None, s2, \<lparr>chain = take (Suc e) (chain a), end_idx = Some e\<rparr>)
             | (Some b, s2) \<Rightarrow>
                 (let p = arena__align_forward (b + sizeof_ArenaRegion) ARENA_ALIGNMENT in
                  (Some p, s2,
                   \<lparr>chain = take (Suc e) (chain a)
                       @ [\<lparr>capacity = new_cap, count = 0 + ((p - (b + sizeof_ArenaRegion)) + sz), base = b\<rparr>],
                    end_idx = Some (Suc e)\<rparr>))))"
proof -
  have "arena_alloc s a sz = arena_alloc_in s (chain a) e sz"
    using e nz by (simp add: arena_alloc_def)
  then show ?thesis
    using arena_alloc_in_overflow [OF lt over, of s] by simp
qed

theorem arena_alloc_overflow_witness:
  "arena_alloc \<lparr>answers = (\<lambda>n. None), ncalls = 0, freed = []\<rparr>
     \<lparr>chain = [\<lparr>capacity = 8192, count = 8190, base = 4096\<rparr>,
               \<lparr>capacity = 32, count = 7, base = 16384\<rparr>,
               \<lparr>capacity = 100000, count = 5, base = 32768\<rparr>,
               \<lparr>capacity = 16, count = 3, base = 65536\<rparr>],
      end_idx = Some 0\<rparr> 64
   = (Some 32800,
      \<lparr>answers = (\<lambda>n. None), ncalls = 0, freed = [16384]\<rparr>,
      \<lparr>chain = [\<lparr>capacity = 8192, count = 8190, base = 4096\<rparr>,
               \<lparr>capacity = 100000, count = 72, base = 32768\<rparr>,
               \<lparr>capacity = 16, count = 3, base = 65536\<rparr>],
       end_idx = Some (Suc 0)\<rparr>)"
proof -
  let ?a = "\<lparr>chain = [\<lparr>capacity = 8192, count = 8190, base = 4096\<rparr>,
               \<lparr>capacity = 32, count = 7, base = 16384\<rparr>,
               \<lparr>capacity = 100000, count = 5, base = 32768\<rparr>,
               \<lparr>capacity = 16, count = 3, base = (65536 :: uintptr_t)\<rparr>],
      end_idx = Some 0\<rparr>"
  have h1: "end_idx ?a = Some 0" by simp
  have h2: "0 < length (chain ?a)" by simp
  have h3: "(64 :: size_t) \<noteq> 0" by simp
  have h4: "count (chain ?a ! 0)
        + (arena__align_forward (data_of (chain ?a ! 0) + count (chain ?a ! 0)) ARENA_ALIGNMENT
            - (data_of (chain ?a ! 0) + count (chain ?a ! 0)))
        + 64 > capacity (chain ?a ! 0)"
    by (simp add: arena__align_forward_def data_of_def ARENA_ALIGNMENT_def sizeof_ArenaRegion_def Let_def)
  show ?thesis
    using arena_alloc_overflow [OF h1 h2 h3 h4, of "\<lparr>answers = (\<lambda>n. None), ncalls = 0, freed = []\<rparr>"]
    by (simp add: arena__align_forward_def data_of_def ARENA_ALIGNMENT_def sizeof_ArenaRegion_def Let_def)
qed

lemma alloc_proceed_keeps:
  assumes "e \<le> e'" "e' < length rs'" "take e rs' = take e rs"
    "capacity (rs' ! e) = capacity (rs ! e)" "base (rs' ! e) = base (rs ! e)"
  shows "keeps e rs (snd (snd (alloc_proceed s rs' e' padding sz p)))"
  using assms by (auto simp: keeps_def alloc_proceed_def Let_def nth_list_update)

lemma arena_alloc_in_keeps:
  assumes le: "e \<le> e'" and lt: "e' < length rs'" and tk: "take e rs' = take e rs"
    and c: "capacity (rs' ! e) = capacity (rs ! e)" and b: "base (rs' ! e) = base (rs ! e)"
  shows "keeps e rs (snd (snd (arena_alloc_in s rs' e' sz)))"
proof -
  have t1: "take e (take (Suc e') rs' @ xs) = take e rs" for xs
    using le lt tk by simp
  have n1: "(take (Suc e') rs' @ xs) ! e = rs' ! e" for xs
    using le lt by (simp add: nth_append)
  have k1: "keeps e rs (snd (snd (alloc_proceed s1 (take (Suc e') rs' @ x # xs) (Suc e') padding sz p)))"
    for s1 x xs padding p
    by (rule alloc_proceed_keeps) (use le lt t1 n1 c b in auto)
  have k2: "keeps e rs \<lparr>chain = take (Suc e') rs', end_idx = Some e'\<rparr>"
    using le lt tk c b by (auto simp: keeps_def)
  have k3: "keeps e rs (snd (snd (alloc_proceed s rs' e' padding sz p)))" for padding p
    by (rule alloc_proceed_keeps) (use le lt tk c b in auto)
  show ?thesis
    unfolding arena_alloc_in_def Let_def
    by (auto simp: k1 k2 k3 arena__new_region_def split: prod.splits option.splits)
qed

lemma arena_alloc_keeps:
  assumes "keeps e rs a"
  shows "keeps e rs (snd (snd (arena_alloc s a sz)))"
proof -
  from assms obtain e' where e': "end_idx a = Some e'" "e \<le> e'" "e' < length (chain a)"
    "take e (chain a) = take e rs" "capacity (chain a ! e) = capacity (rs ! e)"
    "base (chain a ! e) = base (rs ! e)"
    by (auto simp: keeps_def)
  show ?thesis
  proof (cases "sz = 0")
    case True
    then show ?thesis using assms by (simp add: arena_alloc_def)
  next
    case False
    then have "arena_alloc s a sz = arena_alloc_in s (chain a) e' sz"
      using e' by (simp add: arena_alloc_def)
    then show ?thesis using arena_alloc_in_keeps [OF e'(2-6)] by simp
  qed
qed

lemma arena_allocs_keeps:
  "keeps e rs a \<Longrightarrow> keeps e rs (snd (arena_allocs s a ns))"
proof (induction ns arbitrary: s a)
  case Nil
  then show ?case by simp
next
  case (Cons n ns)
  obtain r s' a' where al: "arena_alloc s a n = (r, s', a')" by (cases "arena_alloc s a n") auto
  have "keeps e rs a'" using arena_alloc_keeps [OF Cons.prems, of s n] al by simp
  then show ?case using Cons.IH al by simp
qed

text \<open>
  Claim C8, as the source has it. After \<open>arena_temp_begin\<close>, any sequence of \<open>arena_alloc\<close>
  calls and \<open>arena_temp_end\<close> with the checkpoint, the current-region pointer is the one
  of the beginning, and the chain up to and including that region is what it was: the
  region has its address, its capacity and its used-byte count of the beginning, so the
  next allocation is placed where it would have been placed before the checkpoint.
  Nothing is restored behind the current region, and for a checkpoint taken with no
  current region only the null pointer is restored.
\<close>

theorem temp_end_restores:
  assumes wf: "arena_wf a"
  shows "let temp = arena_temp_begin a;
             a' = snd (arena_allocs s a ns);
             a'' = arena_temp_end temp a'
         in end_idx a'' = end_idx a \<and>
            (case end_idx a of
               None \<Rightarrow> True
             | Some e \<Rightarrow> e < length (chain a'') \<and> take (Suc e) (chain a'') = take (Suc e) (chain a))"
proof (cases "end_idx a")
  case None
  then show ?thesis by (simp add: arena_temp_begin_def arena_temp_end_def Let_def)
next
  case (Some e)
  then have lt: "e < length (chain a)" using wf by (simp add: arena_wf_def)
  have "keeps e (chain a) a" using Some lt by (auto simp: keeps_def)
  then have "keeps e (chain a) (snd (arena_allocs s a ns))" by (rule arena_allocs_keeps)
  then obtain e' where k: "e \<le> e'" "e' < length (chain (snd (arena_allocs s a ns)))"
    "take e (chain (snd (arena_allocs s a ns))) = take e (chain a)"
    "capacity (chain (snd (arena_allocs s a ns)) ! e) = capacity (chain a ! e)"
    "base (chain (snd (arena_allocs s a ns)) ! e) = base (chain a ! e)"
    by (auto simp: keeps_def)
  let ?rs = "chain (snd (arena_allocs s a ns))"
  have lt': "e < length ?rs" using k by simp
  have reg: "(?rs ! e)\<lparr>count := count (chain a ! e)\<rparr> = chain a ! e"
    using k(4,5) by (cases "?rs ! e"; cases "chain a ! e") simp
  have "take (Suc e) (?rs[e := chain a ! e]) = take (Suc e) (chain a)"
    using lt lt' k(3) by (simp add: take_Suc_conv_app_nth)
  then show ?thesis
    using Some lt' reg by (simp add: arena_temp_begin_def arena_temp_end_def Let_def)
qed

theorem temp_end_restores_witness:
  "arena_wf \<lparr>chain = [\<lparr>capacity = 8192, count = 100, base = 4096\<rparr>], end_idx = Some 0\<rparr> \<and>
   end_idx (arena_temp_end
      (arena_temp_begin \<lparr>chain = [\<lparr>capacity = 8192, count = 100, base = 4096\<rparr>], end_idx = Some 0\<rparr>)
      (snd (arena_allocs \<lparr>answers = (\<lambda>n. Some 1048576), ncalls = 0, freed = []\<rparr>
         \<lparr>chain = [\<lparr>capacity = 8192, count = 100, base = 4096\<rparr>], end_idx = Some 0\<rparr> [64, 9000, 20])))
     = Some 0 \<and>
   take (Suc 0) (chain (arena_temp_end
      (arena_temp_begin \<lparr>chain = [\<lparr>capacity = 8192, count = 100, base = 4096\<rparr>], end_idx = Some 0\<rparr>)
      (snd (arena_allocs \<lparr>answers = (\<lambda>n. Some 1048576), ncalls = 0, freed = []\<rparr>
         \<lparr>chain = [\<lparr>capacity = 8192, count = 100, base = 4096\<rparr>], end_idx = Some 0\<rparr> [64, 9000, 20]))))
     = [\<lparr>capacity = 8192, count = 100, base = 4096\<rparr>]"
proof -
  let ?a = "\<lparr>chain = [\<lparr>capacity = 8192, count = 100, base = (4096 :: uintptr_t)\<rparr>], end_idx = Some 0\<rparr>"
  have wf: "arena_wf ?a" by (simp add: arena_wf_def)
  show ?thesis
    using wf temp_end_restores [OF wf, of "\<lparr>answers = (\<lambda>n. Some 1048576), ncalls = 0, freed = []\<rparr>" "[64, 9000, 20]"]
    by (simp add: Let_def)
qed

text \<open>
  The regions behind the current one are not those of the beginning. A fresh arena with
  100 bytes used has one region of 8192 bytes. An allocation of 9000 bytes inside a
  checkpoint links a region of 16384 bytes, and \<open>arena_temp_end\<close> leaves it linked: the
  arena is not the one of the beginning, and where a request of 9000 bytes called
  \<open>malloc\<close> before the checkpoint, it now adopts the region left behind without a call.
\<close>

theorem temp_end_keeps_later_regions:
  "arena_allocs plenty arena_init [92]
     = (plenty\<lparr>ncalls := 1\<rparr>,
        \<lparr>chain = [\<lparr>capacity = 8192, count = 100, base = 1048576\<rparr>], end_idx = Some 0\<rparr>) \<and>
   arena_temp_begin \<lparr>chain = [\<lparr>capacity = 8192, count = 100, base = 1048576\<rparr>], end_idx = Some 0\<rparr>
     = \<lparr>old_end = Some 0, old_count = 100\<rparr> \<and>
   arena_allocs (plenty\<lparr>ncalls := 1\<rparr>)
      \<lparr>chain = [\<lparr>capacity = 8192, count = 100, base = 1048576\<rparr>], end_idx = Some 0\<rparr> [9000]
     = (plenty\<lparr>ncalls := 2\<rparr>,
        \<lparr>chain = [\<lparr>capacity = 8192, count = 100, base = 1048576\<rparr>,
                  \<lparr>capacity = 16384, count = 9008, base = 2097152\<rparr>], end_idx = Some 1\<rparr>) \<and>
   arena_temp_end \<lparr>old_end = Some 0, old_count = 100\<rparr>
      \<lparr>chain = [\<lparr>capacity = 8192, count = 100, base = 1048576\<rparr>,
                \<lparr>capacity = 16384, count = 9008, base = 2097152\<rparr>], end_idx = Some 1\<rparr>
     = \<lparr>chain = [\<lparr>capacity = 8192, count = 100, base = 1048576\<rparr>,
                \<lparr>capacity = 16384, count = 9008, base = 2097152\<rparr>], end_idx = Some 0\<rparr> \<and>
   arena_alloc (plenty\<lparr>ncalls := 2\<rparr>)
      \<lparr>chain = [\<lparr>capacity = 8192, count = 100, base = 1048576\<rparr>], end_idx = Some 0\<rparr> 9000
     = (Some 3145760, plenty\<lparr>ncalls := 3\<rparr>,
        \<lparr>chain = [\<lparr>capacity = 8192, count = 100, base = 1048576\<rparr>,
                  \<lparr>capacity = 16384, count = 9008, base = 3145728\<rparr>], end_idx = Some 1\<rparr>) \<and>
   arena_alloc (plenty\<lparr>ncalls := 2\<rparr>)
      \<lparr>chain = [\<lparr>capacity = 8192, count = 100, base = 1048576\<rparr>,
                \<lparr>capacity = 16384, count = 9008, base = 2097152\<rparr>], end_idx = Some 0\<rparr> 9000
     = (Some 2097184, plenty\<lparr>ncalls := 2\<rparr>,
        \<lparr>chain = [\<lparr>capacity = 8192, count = 100, base = 1048576\<rparr>,
                  \<lparr>capacity = 16384, count = 9008, base = 2097152\<rparr>], end_idx = Some 1\<rparr>)"
  by (simp add: arena_eval)


section \<open>Allocation and the system heap\<close>

lemma arena_walk_sys:
  "answers (fst (arena_walk s sz rs)) = answers s \<and> ncalls (fst (arena_walk s sz rs)) = ncalls s"
  by (simp add: arena_walk_eq)

lemma sys_step_trans:
  "sys_step s True s1 \<Longrightarrow> sys_step s1 ok s2 \<Longrightarrow> sys_step s ok s2"
  unfolding sys_step_def malloc_failed_def
  apply (intro conjI)
    apply simp
   apply simp
  apply (cases ok)
   apply (clarsimp, metis atLeastLessThan_iff le_less_linear order_trans)
  apply clarsimp
  apply (metis atLeastLessThan_iff le_trans)
  done

lemma sys_step_refl: "sys_step s True s"
  by (simp add: sys_step_def malloc_failed_def)

lemma new_region_sys:
  "arena__new_region s cap = (r, s') \<Longrightarrow> sys_step s (r \<noteq> None) s'"
  by (auto simp: arena__new_region_def malloc_def Let_def sys_step_def malloc_failed_def
      split: option.splits)

lemma arena_alloc_in_sys:
  "arena_alloc_in s rs e sz = (r, s', a') \<Longrightarrow> sys_step s (r \<noteq> None) s'"
proof -
  assume a: "arena_alloc_in s rs e sz = (r, s', a')"
  obtain s1 nx rest where w: "arena_walk s sz (drop (Suc e) rs) = (s1, nx, rest)"
    by (cases "arena_walk s sz (drop (Suc e) rs)") auto
  have s1: "answers s1 = answers s" "ncalls s1 = ncalls s"
    using arena_walk_sys [of s sz "drop (Suc e) rs"] w by simp_all
  then have s1': "sys_step s True s1" by (simp add: sys_step_def malloc_failed_def)
  obtain r2 s2 where n: "arena__new_region s1 (grow_capacity (rs ! e) sz) = (r2, s2)"
    by (cases "arena__new_region s1 (grow_capacity (rs ! e) sz)") auto
  have n2: "sys_step s (r2 \<noteq> None) s2"
    by (rule sys_step_trans [OF s1' new_region_sys [OF n]])
  show ?thesis
    using a w n n2 s1' sys_step_refl [of s] unfolding arena_alloc_in_def Let_def
    by (auto simp: alloc_proceed_def Let_def split: if_splits option.splits)
qed

lemma arena_alloc_sys:
  assumes "arena_alloc s a sz = (r, s', a')" "sz \<noteq> 0"
  shows "sys_step s (r \<noteq> None) s'"
proof (cases "end_idx a")
  case (Some e)
  then show ?thesis using assms arena_alloc_in_sys by (simp add: arena_alloc_def)
next
  case None
  show ?thesis
  proof (cases "chain a")
    case (Cons b rest)
    then show ?thesis using assms None arena_alloc_in_sys by (simp add: arena_alloc_def)
  next
    case Nil
    let ?cap = "if ARENA_DEFAULT_BLOCK_SIZE < sz then sz else ARENA_DEFAULT_BLOCK_SIZE"
    obtain r1 s1 where n: "arena__new_region s ?cap = (r1, s1)"
      by (cases "arena__new_region s ?cap") auto
    note n1 = new_region_sys [OF n]
    show ?thesis
    proof (cases r1)
      case None
      then show ?thesis using assms \<open>end_idx a = None\<close> Nil n n1
        by (auto simp: arena_alloc_def Let_def)
    next
      case (Some b)
      then have al: "arena_alloc_in s1 [b] 0 sz = (r, s', a')"
        using assms \<open>end_idx a = None\<close> Nil n by (simp add: arena_alloc_def Let_def)
      have one: "sys_step s1 (r \<noteq> None) s'" by (rule arena_alloc_in_sys [OF al])
      show ?thesis using sys_step_trans [OF _ one] n1 Some by simp
    qed
  qed
qed

lemma alloc_sys:
  assumes "alloc m sz = (ok, m')" "sz \<noteq> 0"
  shows "sys_step (fst m) ok (fst m')"
proof -
  obtain r s' a' where a: "arena_alloc (fst m) (snd m) sz = (r, s', a')"
    by (cases "arena_alloc (fst m) (snd m) sz") auto
  show ?thesis using arena_alloc_sys [OF a assms(2)] assms(1) a by (auto simp: alloc_def)
qed

lemma mem_ok_step:
  assumes "mem_ok m" "sys_step (fst m) ok (fst m')"
  shows "ok \<and> mem_ok m'"
  using assms unfolding mem_ok_def sys_step_def malloc_failed_def
  by (auto simp: Ball_def)

lemma alloc_ok:
  assumes "mem_ok m" "sz \<noteq> 0"
  shows "fst (alloc m sz) \<and> mem_ok (snd (alloc m sz))"
  using mem_ok_step [OF assms(1) alloc_sys [OF _ assms(2), of m "fst (alloc m sz)" "snd (alloc m sz)"]]
  by simp

section \<open>Unfolding the parser\<close>

lemma parse_element_pos:
  "0 < fuel \<Longrightarrow> parse_element fuel L buf m s0 depth =
     (let s = skip_whitespace buf s0 in
      if curr s \<ge> p_end s then Some (None, set_error s ''Unexpected end of input'', m)
      else
        (let c = byte_at buf (curr s) in
         if c = CHR 0x22 then Some (parse_string_value buf m s)
         else if c = CHR ''['' then
           (if fst (make_value m) then parse_array (fuel - 1) L buf (snd (make_value m)) s (JArray Uninit) depth
            else Some (None, s, snd (make_value m)))
         else if c = CHR ''{'' then
           (if fst (make_value m) then parse_object (fuel - 1) L buf (snd (make_value m)) s (JObject Uninit) depth
            else Some (None, s, snd (make_value m)))
         else Some (parse_scalar L buf m s c)))"
  by (subst Suc_pred' [of fuel], assumption) (simp only: parse_element.simps)

lemma parse_array_pos:
  "0 < fuel \<Longrightarrow> parse_array fuel L buf m s0 arr depth =
     (if depth > MAX_JSON_DEPTH then Some (None, set_error s0 ''Maximum JSON depth exceeded'', m)
      else
        (let s = skip_whitespace buf (advance buf s0 1) in
         if curr s < p_end s \<and> byte_at buf (curr s) = CHR '']'' then Some (Some arr, advance buf s 1, m)
         else
           (case parse_array_loop (fuel - 1) L buf m s depth of
              None \<Rightarrow> None
            | Some (None, s1, m1) \<Rightarrow> Some (None, s1, m1)
            | Some (Some nodes, s1, m1) \<Rightarrow> Some (Some (JArray nodes), s1, m1))))"
  by (subst Suc_pred' [of fuel], assumption) (simp only: parse_array.simps)

lemma parse_object_pos:
  "0 < fuel \<Longrightarrow> parse_object fuel L buf m s0 obj depth =
     (if depth > MAX_JSON_DEPTH then Some (None, set_error s0 ''Maximum JSON depth exceeded'', m)
      else
        (let s = skip_whitespace buf (advance buf s0 1) in
         if curr s < p_end s \<and> byte_at buf (curr s) = CHR ''}'' then Some (Some obj, advance buf s 1, m)
         else
           (case parse_object_loop (fuel - 1) L buf m s depth of
              None \<Rightarrow> None
            | Some (None, s1, m1) \<Rightarrow> Some (None, s1, m1)
            | Some (Some nodes, s1, m1) \<Rightarrow> Some (Some (JObject nodes), s1, m1))))"
  by (subst Suc_pred' [of fuel], assumption) (simp only: parse_object.simps)

lemma parse_array_loop_pos:
  "0 < fuel \<Longrightarrow> parse_array_loop fuel L buf m s0 depth =
     (if curr s0 < p_end s0 then
        (case parse_element (fuel - 1) L buf m s0 (depth + 1) of
           None \<Rightarrow> None
         | Some (None, s1, m1) \<Rightarrow> Some (None, s1, m1)
         | Some (Some elem, s1, m1) \<Rightarrow>
             (if fst (alloc m1 sizeof_JsonNode) then
                (case after_array_element buf s1 of
                   Failed s2 \<Rightarrow> Some (None, s2, snd (alloc m1 sizeof_JsonNode))
                 | Closed s2 \<Rightarrow> Some (Some (Node None elem NULL), s2, snd (alloc m1 sizeof_JsonNode))
                 | More s2 \<Rightarrow>
                     (case parse_array_loop (fuel - 1) L buf (snd (alloc m1 sizeof_JsonNode)) s2 depth of
                        None \<Rightarrow> None
                      | Some (None, s3, m3) \<Rightarrow> Some (None, s3, m3)
                      | Some (Some rest, s3, m3) \<Rightarrow> Some (Some (Node None elem rest), s3, m3)))
              else Some (None, s1, snd (alloc m1 sizeof_JsonNode))))
      else Some (None, set_error s0 ''Unclosed array'', m))"
  by (subst Suc_pred' [of fuel], assumption) (simp only: parse_array_loop.simps)

lemma parse_object_loop_pos:
  "0 < fuel \<Longrightarrow> parse_object_loop fuel L buf m s0 depth =
     (if curr s0 < p_end s0 then
        (case parse_key buf m s0 of
           (None, s1, m1) \<Rightarrow> Some (None, s1, m1)
         | (Some k, s1, m1) \<Rightarrow>
             (case parse_element (fuel - 1) L buf m1 s1 (depth + 1) of
                None \<Rightarrow> None
              | Some (None, s2, m2) \<Rightarrow> Some (None, s2, m2)
              | Some (Some v, s2, m2) \<Rightarrow>
                  (if fst (alloc m2 sizeof_JsonNode) then
                     (case after_object_member buf s2 of
                        Failed s3 \<Rightarrow> Some (None, s3, snd (alloc m2 sizeof_JsonNode))
                      | Closed s3 \<Rightarrow> Some (Some (Node (Some k) v NULL), s3, snd (alloc m2 sizeof_JsonNode))
                      | More s3 \<Rightarrow>
                          (case parse_object_loop (fuel - 1) L buf (snd (alloc m2 sizeof_JsonNode)) s3 depth of
                             None \<Rightarrow> None
                           | Some (None, s4, m4) \<Rightarrow> Some (None, s4, m4)
                           | Some (Some rest, s4, m4) \<Rightarrow> Some (Some (Node (Some k) v rest), s4, m4)))
                   else Some (None, s2, snd (alloc m2 sizeof_JsonNode)))))
      else Some (None, set_error s0 ''Unclosed object'', m))"
  by (subst Suc_pred' [of fuel], assumption) (simp only: parse_object_loop.simps)

section \<open>Small steps of the parse state\<close>

lemma skip_ws_stop:
  "curr s < p_end s \<Longrightarrow> byte_at buf (curr s) \<notin> {CHR '' '', CHR 0x09, CHR 0x0D, CHR 0x0A}
     \<Longrightarrow> skip_whitespace buf s = s"
  by (subst skip_whitespace.simps) (simp add: Let_def)

lemma skip_ws_end: "\<not> curr s < p_end s \<Longrightarrow> skip_whitespace buf s = s"
  by (subst skip_whitespace.simps) simp

lemma advance_one:
  "curr s < p_end s \<Longrightarrow> byte_at buf (curr s) \<noteq> CHR 0x0A
     \<Longrightarrow> advance buf s 1 = s\<lparr>col := col s + 1, curr := curr s + 1\<rparr>"
  by simp

lemma advance_pos:
  "0 < n \<Longrightarrow> advance buf s n =
     (if curr s \<ge> p_end s then s
      else advance buf
             ((if byte_at buf (curr s) = CHR 0x0A then s\<lparr>line := line s + 1, col := 1\<rparr>
               else s\<lparr>col := col s + 1\<rparr>)\<lparr>curr := curr s + 1\<rparr>) (n - 1))"
  by (subst Suc_pred' [of n], assumption) (simp only: advance.simps)

lemma make_value_ok':
  "mem_ok m \<Longrightarrow> \<exists>m'. make_value m = (True, m') \<and> mem_ok m'"
  using alloc_ok [of m sizeof_JsonValue] unfolding make_value_def
  by (cases "alloc m sizeof_JsonValue") (auto simp: sizeof_JsonValue_def)

lemma make_value_ok: "mem_ok m \<Longrightarrow> fst (make_value m) \<and> mem_ok (snd (make_value m))"
  unfolding make_value_def by (rule alloc_ok) (simp_all add: sizeof_JsonValue_def)


lemma mem_ok_plenty: "mem_ok (plenty, ar)"
  by (simp add: mem_ok_def plenty_def)

section \<open>Claims about single calls\<close>

text \<open>
  Claim C10. \<open>json_add\<close> with a null target, key or value or with a target that is not
  an object, and \<open>json_append\<close> with a null target or value or with a target that is
  not an array, return without a report and change nothing: the memory and the target
  after the call are those before it.
\<close>

theorem add_append_ignore:
  "((obj = None \<or> k = None \<or> v = None \<or> (\<exists>ob. obj = Some ob \<and> type_of ob \<noteq> JSON_OBJECT))
      \<longrightarrow> json_add sy a obj k v = Some (sy, a, obj)) \<and>
   ((arr = None \<or> v = None \<or> (\<exists>ar. arr = Some ar \<and> type_of ar \<noteq> JSON_ARRAY))
      \<longrightarrow> json_append sy a arr v = Some (sy, a, arr))"
  by (auto simp: json_add_def json_append_def split: option.splits)

theorem add_append_ignore_witness:
  "json_add plenty (Some arena_init) (Some (JArray NULL)) (Some ''k'') (Some (JBool True :: int option JsonValue))
     = Some (plenty, Some arena_init, Some (JArray NULL)) \<and>
   json_append plenty (Some arena_init) (Some (JObject NULL)) (Some (JBool True :: int option JsonValue))
     = Some (plenty, Some arena_init, Some (JObject NULL))"
  using add_append_ignore [where obj = "Some (JArray NULL)" and k = "Some ''k''"
      and v = "Some (JBool True :: int option JsonValue)"
      and arr = "Some (JObject NULL)" and sy = plenty and a = "Some arena_init"]
  by simp

text \<open>
  Claim C3. With the length zero or with the null input \<open>json_parse\<close> fails and leaves
  the error slot as the caller passed it: no message, line, column or offset is stored.
\<close>

theorem parse_no_input_leaves_slot:
  "json_parse L sy a input 0 e = (None, e, sy, a) \<and> json_parse L sy a None len e = (None, e, sy, a)"
  by (simp add: json_parse_def split: option.splits)

lemma true_len2:
  assumes "mem_ok (sy, ar)"
  shows "fst (json_parse L sy (Some ar) (Some ''true'') 2 e) = Some (JBool True)"
proof -
  obtain m' where m: "make_value (sy, ar) = (True, m')" using make_value_ok' [OF assms] by auto
  show ?thesis
    unfolding json_parse_def
    by (simp add: parse_element_pos Let_def skip_ws_stop skip_ws_end byte_at_def NUL_def
        parse_scalar_def isdigit_def strncmp_eq_def cstring_at_def cstr_def m advance_pos
        split: prod.splits)
qed

lemma trXX_len2:
  "fst (json_parse L sy (Some ar) (Some ''trXX'') 2 e) = None"
  unfolding json_parse_def
  by (simp add: parse_element_pos Let_def skip_ws_stop skip_ws_end byte_at_def NUL_def
      parse_scalar_def isdigit_def strncmp_eq_def cstring_at_def cstr_def split: prod.splits)

text \<open>
  Claim C9. Two buffers that agree on their first two bytes, parsed with the length 2:
  on \<open>true\<close> the parser compares four bytes with the literal and returns the Bool, on
  \<open>trXX\<close> it fails.
\<close>

theorem literal_reads_past_length:
  "fst (json_parse L plenty (Some arena_init) (Some ''true'') 2 None) = Some (JBool True) \<and>
   fst (json_parse L plenty (Some arena_init) (Some ''trXX'') 2 None) = None \<and>
   take 2 ''true'' = take 2 ''trXX''"
  by (simp add: true_len2 [OF mem_ok_plenty] trXX_len2)

lemma empty_array_parse:
  assumes "mem_ok (sy, ar)"
  shows "fst (json_parse L sy (Some ar) (Some ''[]'') 2 e) = Some (JArray Uninit)"
proof -
  have m: "fst (make_value (sy, ar))" using make_value_ok [OF assms] by simp
  show ?thesis
    unfolding json_parse_def
    by (simp add: parse_element_pos parse_array_pos MAX_JSON_DEPTH_def Let_def skip_ws_stop skip_ws_end
        byte_at_def NUL_def m split: prod.splits)
qed

lemma empty_object_parse:
  assumes "mem_ok (sy, ar)"
  shows "fst (json_parse L sy (Some ar) (Some ''{}'') 2 e) = Some (JObject Uninit)"
proof -
  have m: "fst (make_value (sy, ar))" using make_value_ok [OF assms] by simp
  show ?thesis
    unfolding json_parse_def
    by (simp add: parse_element_pos parse_object_pos MAX_JSON_DEPTH_def Let_def skip_ws_stop skip_ws_end
        byte_at_def NUL_def m split: prod.splits)
qed

lemma uninit_to_string:
  "json_to_string L junk sy (Some ar) (Some (JArray Uninit)) pretty = None"
  "json_to_string L junk sy (Some ar) (Some (JObject Uninit)) pretty = None"
  by (simp_all add: json_to_string_def w_char_def)

text \<open>
  Claim C6. The value that \<open>json_parse\<close> returns for \<open>[]\<close> and for \<open>{}\<close>, and the value
  that \<open>json_create_array\<close> and \<open>json_create_object\<close> return, has a list head that no
  code has stored to; \<open>json_to_string\<close> reads it, in either mode.
\<close>

theorem empty_container_head_indeterminate:
  "fst (json_parse L plenty (Some arena_init) (Some ''[]'') 2 None) = Some (JArray Uninit) \<and>
   fst (json_parse L plenty (Some arena_init) (Some ''{}'') 2 None) = Some (JObject Uninit) \<and>
   fst (json_create_array plenty (Some arena_init)) = Some (JArray Uninit) \<and>
   fst (json_create_object plenty (Some arena_init)) = Some (JObject Uninit) \<and>
   json_to_string L junk sy (Some ar) (Some (JArray Uninit)) pretty = None \<and>
   json_to_string L junk sy (Some ar) (Some (JObject Uninit)) pretty = None"
proof -
  obtain m' where m: "make_value (plenty, arena_init) = (True, m')"
    using make_value_ok' [OF mem_ok_plenty [of arena_init]] by auto
  show ?thesis
    by (simp add: empty_array_parse [OF mem_ok_plenty] empty_object_parse [OF mem_ok_plenty] m
        uninit_to_string json_create_array_def json_create_object_def split: prod.splits)
qed

section \<open>The two passes of the serializer\<close>

lemma w_text_simps [simp]:
  "w_text st None = None" "w_text st (Some []) = Some st"
  by (cases st; simp add: w_text_def w_str_def split: option.splits)+

lemma w_str_text: "w_str st s = w_text st (Some s)"
  by (simp add: w_text_def)

lemma w_char_text: "w_char st c = w_text st (Some [c])"
  by (cases st) (auto simp: w_text_def w_char_def w_str_def upd_conv_take_nth_drop split: option.splits)

lemma w_text_append:
  "w_text st (Some a) \<bind> (\<lambda>st. w_text st (Some b)) = w_text st (Some (a @ b))"
  by (cases st) (auto simp: w_text_def w_str_def ac_simps split: option.splits)

lemma bind_none: "x \<bind> (\<lambda>_. None) = None"
  by (cases x) simp_all

lemma w_text_bind:
  "w_text st (Some a) \<bind> (\<lambda>st. w_text st t \<bind> f) = w_text st (map_option ((@) a) t) \<bind> f"
proof (cases t)
  case None
  then show ?thesis by (simp add: bind_none)
next
  case (Some b)
  have "w_text st (Some a) \<bind> (\<lambda>st. w_text st (Some b) \<bind> f)
      = (w_text st (Some a) \<bind> (\<lambda>st. w_text st (Some b))) \<bind> f"
    by simp
  then show ?thesis using Some by (simp only: w_text_append option.map)
qed

lemma w_text_bind2:
  "w_text st (Some a) \<bind> (\<lambda>st. w_text st t) = w_text st (map_option ((@) a) t)"
  using w_text_bind [of st a t Some] by simp

lemma w_spaces_text: "w_spaces st n = w_text st (Some (spaces n))"
proof (induction n arbitrary: st)
  case 0
  show ?case by (simp add: spaces_def)
next
  case (Suc n)
  show ?case by (simp add: Suc w_char_text w_text_append spaces_def)
qed

lemma w_escaped_chars_text: "w_escaped_chars st s = w_text st (Some (escaped_chars s))"
proof (induction s arbitrary: st)
  case Nil
  show ?case by simp
next
  case (Cons c s)
  show ?case
    by (simp add: Cons w_char_text w_str_text w_text_append u00XX_def)
qed

lemma w_escaped_string_text: "w_escaped_string st s = w_text st (Some (escaped s))"
  by (simp add: w_escaped_string_def escaped_def w_escaped_chars_text w_char_text w_text_append
      w_text_bind)

lemma when_pretty_simps: "when_pretty True f = f" "when_pretty False f = Some"
  by (rule ext, simp add: when_pretty_def)+

lemma separator_text:
  "(case n of NULL \<Rightarrow> Some st | Uninit \<Rightarrow> None
    | Node k' v' n' \<Rightarrow> w_char st (CHR '','') \<bind> (\<lambda>st. when_pretty pretty (\<lambda>st. w_char st (CHR 0x0A)) st))
   = w_text st (separator n pretty)"
  by (cases n; cases pretty)
    (simp_all add: separator_def when_pretty_simps w_char_text w_text_append)

lemma node_case_if:
  "(case h of NULL \<Rightarrow> a | Uninit \<Rightarrow> b | Node k v n \<Rightarrow> c) = (if h = NULL then a else if h = Uninit then b else c)"
  by (cases h) simp_all

lemma write_is_text:
  "json_write_internal L v st indent pretty = w_text st (json_text L v indent pretty)"
  "write_array_nodes L n st indent pretty = w_text st (array_text L n indent pretty)
   \<and> write_object_nodes L n st indent pretty = w_text st (object_text L n indent pretty)"
proof (induction v and n arbitrary: st indent pretty and st indent pretty)
  case JNull
  show ?case by (simp add: w_str_text)
next
  case (JBool b)
  show ?case by (simp add: w_str_text)
next
  case (JNumber d)
  show ?case by (simp add: w_str_text)
next
  case (JString s)
  show ?case by (simp add: w_escaped_string_text)
next
  case (JArray h)
  have a: "write_array_nodes L h st indent pretty = w_text st (array_text L h indent pretty)"
    for st indent pretty using JArray by simp
  show ?case
    by (cases pretty; cases "array_text L h indent pretty")
      (simp_all add: a node_case_if w_char_text w_text_append w_text_bind w_text_bind2 when_pretty_simps w_spaces_text
        bind_none del: write_array_nodes.simps array_text.simps)
next
  case (JObject h)
  have a: "write_object_nodes L h st indent pretty = w_text st (object_text L h indent pretty)"
    for st indent pretty using JObject by simp
  show ?case
    by (cases pretty; cases "object_text L h indent pretty")
      (simp_all add: a node_case_if w_char_text w_text_append w_text_bind w_text_bind2 when_pretty_simps w_spaces_text
        bind_none del: write_object_nodes.simps object_text.simps)
next
  case NULL
  show ?case by simp
next
  case Uninit
  show ?case by simp
next
  case (Node k v n)
  have a: "write_array_nodes L n st indent pretty = w_text st (array_text L n indent pretty)"
    for st indent pretty using Node(2) by simp
  have b: "write_object_nodes L n st indent pretty = w_text st (object_text L n indent pretty)"
    for st indent pretty using Node(2) by simp
  have arr: "write_array_nodes L (Node k v n) st indent pretty
      = w_text st (array_text L (Node k v n) indent pretty)"
    by (cases pretty; cases "json_text L v (indent + (if pretty then 2 else 0)) pretty";
        cases "separator n pretty"; cases "array_text L n indent pretty")
      (simp_all add: Node(1) a separator_text w_text_append w_text_bind w_text_bind2 when_pretty_simps
        w_spaces_text bind_none)
  have obj: "write_object_nodes L (Node k v n) st indent pretty
      = w_text st (object_text L (Node k v n) indent pretty)"
    by (cases pretty; cases k; cases "json_text L v (indent + (if pretty then 2 else 0)) pretty";
        cases "separator n pretty"; cases "object_text L n indent pretty")
      (simp_all add: Node(1) b separator_text w_text_append w_text_bind w_text_bind2 when_pretty_simps
        w_spaces_text w_escaped_string_text w_str_text bind_none)
  show ?case using arr obj by simp
qed

lemma w_str_count: "w_str (None, pos) s = Some (None, pos + length s)"
  by (simp add: w_str_def)

lemma w_str_fill:
  "length buf = length s + 1 \<Longrightarrow> w_str (Some buf, 0) s = Some (Some (s @ [buf ! length s]), length s)"
proof -
  assume l: "length buf = length s + 1"
  then have "drop (length s) buf = [buf ! length s]"
    by (simp add: Cons_nth_drop_Suc [symmetric])
  then show ?thesis using l by (cases "s = []") (simp_all add: w_str_def)
qed

text \<open>
  Claim C7. For a tree that the serializer can walk, the counting pass returns the
  length of the text, and the writing pass into a buffer of that length plus one stores
  exactly the text into the bytes in front of the last one and ends at the same count:
  nothing is stored behind the buffer and no byte in front of the terminator is left
  as it was. \<open>json_to_string\<close> asks the arena for that length plus one and, where the
  arena has the memory, returns the text with its terminator.
\<close>

theorem two_pass_exact:
  assumes t: "json_text L v 0 pretty = Some text"
  shows "json_write_internal L v (None, 0) 0 pretty = Some (None, length text) \<and>
    (\<forall>buf. length buf = length text + 1 \<longrightarrow>
       json_write_internal L v (Some buf, 0) 0 pretty = Some (Some (text @ [buf ! length text]), length text)) \<and>
    (length text + 1 < 2 ^ 64 \<longrightarrow>
       json_to_string L junk sy (Some ar) (Some v) pretty =
         (case arena_alloc sy ar (of_nat (length text + 1)) of
            (None, sy1, ar1) \<Rightarrow> Some (None, sy1, Some ar1)
          | (Some p, sy1, ar1) \<Rightarrow> Some (Some (text @ [NUL]), sy1, Some ar1)))"
proof (intro conjI allI impI)
  show p1: "json_write_internal L v (None, 0) 0 pretty = Some (None, length text)"
    by (simp add: write_is_text t w_text_def w_str_count)
  show p2: "json_write_internal L v (Some buf, 0) 0 pretty = Some (Some (text @ [buf ! length text]), length text)"
    if "length buf = length text + 1" for buf
    using that by (simp add: write_is_text t w_text_def w_str_fill)
  show "json_to_string L junk sy (Some ar) (Some v) pretty =
         (case arena_alloc sy ar (of_nat (length text + 1)) of
            (None, sy1, ar1) \<Rightarrow> Some (None, sy1, Some ar1)
          | (Some p, sy1, ar1) \<Rightarrow> Some (Some (text @ [NUL]), sy1, Some ar1))"
    if small: "length text + 1 < 2 ^ 64"
  proof -
    have u: "unat (of_nat (length text + 1) :: size_t) = length text + 1"
      using small by (simp only: unat_of_nat) simp
    let ?buf = "map junk [0 ..< length text + 1]"
    have l: "length ?buf = length text + 1" by simp
    have upd: "(text @ [c])[length text := NUL] = text @ [NUL]" for c
      by simp
    obtain r sy1 ar1 where al: "arena_alloc sy ar (of_nat (length text + 1)) = (r, sy1, ar1)"
      by (cases "arena_alloc sy ar (of_nat (length text + 1))") auto
    have w2: "json_write_internal L v (Some (map junk [0 ..< unat (of_nat (length text + 1) :: size_t)]), 0) 0 pretty
        = Some (Some (text @ [?buf ! length text]), length text)"
      by (simp only: u p2 [OF l])
    show ?thesis
      unfolding json_to_string_def
      by (cases r) (simp_all only: p1 al w2 Let_def option.case prod.case upd length_append
          list.size, simp_all)
  qed
qed

lemma show_int_1: "show_int 1 = ''1''"
  by code_simp

theorem two_pass_exact_witness:
  "json_text example_libc (JObject (Node (Some ''a'') (JNumber (Some 1)) NULL)) 0 False = Some ''{\"a\":1}'' \<and>
   json_write_internal example_libc (JObject (Node (Some ''a'') (JNumber (Some 1)) NULL)) (None, 0) 0 False
     = Some (None, 7) \<and>
   json_write_internal example_libc (JObject (Node (Some ''a'') (JNumber (Some 1)) NULL))
       (Some ''????????'', 0) 0 False
     = Some (Some ''{\"a\":1}?'', 7)"
proof -
  have t: "json_text example_libc (JObject (Node (Some ''a'') (JNumber (Some 1)) NULL)) 0 False
      = Some ''{\"a\":1}''"
    by (simp add: example_libc_def show_int_1 separator_def escaped_def cstr_def NUL_def)
  show ?thesis
    using t two_pass_exact [OF t, of undefined plenty arena_init, THEN conjunct1]
      two_pass_exact [OF t, of undefined plenty arena_init, THEN conjunct2, THEN conjunct1, rule_format,
        of "''????????''"]
    by simp
qed
section \<open>The position of the parser\<close>

declare advance.simps [simp del]

lemma steps_refl [simp]: "steps s s"
  by (simp add: steps_def)


lemma set_error_fields [simp]:
  "curr (set_error s m) = curr s" "p_end (set_error s m) = p_end s"
  "line (set_error s m) = line s" "col (set_error s m) = col s"
  by (simp_all add: set_error_def split: option.splits)

lemma steps_set_error [simp]: "steps s (set_error s m)"
  by (simp add: steps_def)











section \<open>The system heap under the parser\<close>

lemma heap_ok_refl [simp]: "heap_ok m ok m"
  by (simp add: heap_ok_def malloc_failed_def)






section \<open>The parts of the parser that do not recurse\<close>







section \<open>Every call of the parser moves forward and keeps the heap\<close>








section \<open>Allocation failure at the entry points\<close>














section \<open>The depth limit\<close>













section \<open>Reading back the compact text\<close>

subsection \<open>Strings\<close>

lemma text_at_Nil [simp]: "text_at buf p []"
  by (simp add: text_at_def)

























subsection \<open>Scalars\<close>











subsection \<open>Containers\<close>












subsection \<open>The round trip\<close>












end
